theory Spec2Isabelle
  imports Complex_Main "HOL-Library.Sublist" "HOL-Library.AList"
begin

section \<open>Python values, strings and exceptions\<close>

text \<open>
  Python strings are modelled as \<open>string\<close>, one \<open>char\<close> per code point, so the model
  covers the code points below 256. Python floats (\<open>analysis_time_seconds\<close>, the clock
  readings of \<open>time.time()\<close>, file modification times) are only stored and compared
  by the code, never computed with; they are modelled as \<open>real\<close>.
\<close>

datatype pyval =
    PNone
  | PBool bool
  | PInt int
  | PFloat real
  | PStr string
  | PList "pyval list"
  | PDict "(string \<times> pyval) list"

text \<open>
  The exceptions the analysis layer raises or catches. \<open>RepositoryError c\<close> and
  \<open>AnalysisError c\<close> carry the exception they were raised \<open>from\<close>; message strings
  are left out. \<open>Unmodelled\<close> marks a document whose field values do not have the
  types the dataclasses annotate and that Python would nevertheless accept unchecked.
\<close>

datatype exn =
    KeyError
  | ValueError
  | TypeError
  | AttributeError
  | IOError
  | JSONDecodeError
  | UnicodeDecodeError
  | Unmodelled
  | RepositoryError exn
  | AnalysisError exn

text \<open>\<open>isinstance(e, ValueError)\<close>: the two decode errors are subclasses of it.\<close>

fun is_ValueError :: "exn \<Rightarrow> bool" where
  "is_ValueError ValueError = True"
| "is_ValueError JSONDecodeError = True"
| "is_ValueError UnicodeDecodeError = True"
| "is_ValueError _ = False"

text \<open>\<open>str.isspace\<close> on one code point below 256.\<close>

definition whitespace :: "char list" where
  "whitespace =
     [CHR 0x09, CHR 0x0A, CHR 0x0B, CHR 0x0C, CHR 0x0D, CHR 0x1C, CHR 0x1D, CHR 0x1E,
      CHR 0x1F, CHR 0x20, CHR 0x85, CHR 0xA0]"

definition isspace :: "char \<Rightarrow> bool" where
  "isspace c = (c \<in> set whitespace)"

text \<open>\<open>str.strip()\<close>\<close>

definition strip :: "string \<Rightarrow> string" where
  "strip s = rev (dropWhile isspace (rev (dropWhile isspace s)))"

text \<open>
  \<open>str.lower()\<close>: the ASCII capitals and the Latin-1 capitals (code points 192 to 222
  without the multiplication sign 215) map to the letter 32 places up; every other code
  point below 256 stays.
\<close>

definition upper_letters :: "char list" where
  "upper_letters = ''ABCDEFGHIJKLMNOPQRSTUVWXYZ'' @
     [CHR 0xC0, CHR 0xC1, CHR 0xC2, CHR 0xC3, CHR 0xC4, CHR 0xC5, CHR 0xC6, CHR 0xC7,
      CHR 0xC8, CHR 0xC9, CHR 0xCA, CHR 0xCB, CHR 0xCC, CHR 0xCD, CHR 0xCE, CHR 0xCF,
      CHR 0xD0, CHR 0xD1, CHR 0xD2, CHR 0xD3, CHR 0xD4, CHR 0xD5, CHR 0xD6,
      CHR 0xD8, CHR 0xD9, CHR 0xDA, CHR 0xDB, CHR 0xDC, CHR 0xDD, CHR 0xDE]"

definition lower_letters :: "char list" where
  "lower_letters = ''abcdefghijklmnopqrstuvwxyz'' @
     [CHR 0xE0, CHR 0xE1, CHR 0xE2, CHR 0xE3, CHR 0xE4, CHR 0xE5, CHR 0xE6, CHR 0xE7,
      CHR 0xE8, CHR 0xE9, CHR 0xEA, CHR 0xEB, CHR 0xEC, CHR 0xED, CHR 0xEE, CHR 0xEF,
      CHR 0xF0, CHR 0xF1, CHR 0xF2, CHR 0xF3, CHR 0xF4, CHR 0xF5, CHR 0xF6,
      CHR 0xF8, CHR 0xF9, CHR 0xFA, CHR 0xFB, CHR 0xFC, CHR 0xFD, CHR 0xFE]"

definition lower_char :: "char \<Rightarrow> char" where
  "lower_char c = (case map_of (zip upper_letters lower_letters) c of Some l \<Rightarrow> l | None \<Rightarrow> c)"

definition lower :: "string \<Rightarrow> string" where
  "lower s = map lower_char s"

text \<open>The operator \<open>q in s\<close> on strings: \<open>q\<close> occurs in \<open>s\<close> at some offset.\<close>

fun str_in :: "string \<Rightarrow> string \<Rightarrow> bool" where
  "str_in q [] = (q = [])"
| "str_in q (c # cs) = (prefix q (c # cs) \<or> str_in q cs)"

text \<open>\<open>str(n)\<close> for an integer, used in cache keys.\<close>

fun str_nat :: "nat \<Rightarrow> string" where
  "str_nat n = (if n < 10 then [''0123456789'' ! n]
                else str_nat (n div 10) @ [''0123456789'' ! (n mod 10)])"

definition str_int :: "int \<Rightarrow> string" where
  "str_int i = (if i < 0 then CHR ''-'' # str_nat (nat (- i)) else str_nat (nat i))"

text \<open>
  A Python \<open>dict\<close> is an association list in insertion order with distinct keys:
  \<open>d[k] = v\<close> is \<^const>\<open>AList.update\<close> (in place for a key that is present, appended
  otherwise), \<open>d.get(k)\<close> is \<^const>\<open>map_of\<close>.
\<close>

definition dict_keys :: "('k \<times> 'v) list \<Rightarrow> 'k list" where
  "dict_keys d = map fst d"

text \<open>\<open>del d[k]\<close> raises \<open>KeyError\<close> for a key that is absent.\<close>

definition dict_del :: "'k \<Rightarrow> ('k \<times> 'v) list \<Rightarrow> exn + ('k \<times> 'v) list" where
  "dict_del k d = (if k \<in> set (dict_keys d) then Inr (AList.delete k d) else Inl KeyError)"

section \<open>Domain model (domain\_models.py)\<close>

datatype DependencyType =
    INSTANTIATION
  | STATIC_CALL
  | TYPE_HINT
  | USE_STATEMENT
  | INSTANCEOF
  | CLASS_CONSTANT
  | CLASS_REFERENCE

fun type_value :: "DependencyType \<Rightarrow> string" where
  "type_value INSTANTIATION = ''instantiation''"
| "type_value STATIC_CALL = ''static_call''"
| "type_value TYPE_HINT = ''type_hint''"
| "type_value USE_STATEMENT = ''use_statement''"
| "type_value INSTANCEOF = ''instanceof''"
| "type_value CLASS_CONSTANT = ''class_constant''"
| "type_value CLASS_REFERENCE = ''class_reference''"

definition all_dependency_types :: "DependencyType list" where
  "all_dependency_types =
     [INSTANTIATION, STATIC_CALL, TYPE_HINT, USE_STATEMENT, INSTANCEOF,
      CLASS_CONSTANT, CLASS_REFERENCE]"

record Dependency =
  dep_type :: DependencyType
  line :: int
  snippet :: string
  details :: "(string \<times> pyval) list"

text \<open>
  Field \<open>snippet\<close> is the dataclass field \<open>context\<close> and \<open>dep_type\<close> is \<open>type\<close>
  (both names are reserved words here). \<open>post_init\<close> functions are the
  \<open>__post_init__\<close> validations: they return the exception raised, if any.
\<close>

definition Dependency_post_init :: "Dependency \<Rightarrow> exn option" where
  "Dependency_post_init d =
     (if line d < 0 then Some ValueError
      else if strip (snippet d) = [] then Some ValueError
      else None)"

record FileAnalysis =
  file_path :: string
  relative_path :: string
  dependencies :: "Dependency list"
  error :: "string option"

definition FileAnalysis_post_init :: "FileAnalysis \<Rightarrow> exn option" where
  "FileAnalysis_post_init f =
     (if strip (file_path f) = [] then Some ValueError
      else if strip (relative_path f) = [] then Some ValueError
      else None)"

definition total_dependencies :: "FileAnalysis \<Rightarrow> nat" where
  "total_dependencies f = length (dependencies f)"

definition has_dependencies :: "FileAnalysis \<Rightarrow> bool" where
  "has_dependencies f = (total_dependencies f > 0)"

definition dependency_types :: "FileAnalysis \<Rightarrow> DependencyType set" where
  "dependency_types f = dep_type ` set (dependencies f)"

definition file_dependencies_by_type :: "FileAnalysis \<Rightarrow> DependencyType \<Rightarrow> Dependency list" where
  "file_dependencies_by_type f t = filter (\<lambda>dep. dep_type dep = t) (dependencies f)"

record AnalysisMetadata =
  timestamp :: string
  analysis_time_seconds :: real
  base_path :: string
  analyzed_folders :: "string list"
  excluded_folders :: "string list"
  total_files_analyzed :: int

definition AnalysisMetadata_post_init :: "AnalysisMetadata \<Rightarrow> exn option" where
  "AnalysisMetadata_post_init m =
     (if analysis_time_seconds m < 0 then Some ValueError
      else if total_files_analyzed m < 0 then Some ValueError
      else None)"

record AnalysisResult =
  files :: "FileAnalysis list"
  metadata :: AnalysisMetadata

definition total_files :: "AnalysisResult \<Rightarrow> nat" where
  "total_files r = length (files r)"

definition files_with_dependencies :: "AnalysisResult \<Rightarrow> FileAnalysis list" where
  "files_with_dependencies r = filter has_dependencies (files r)"

definition result_total_dependencies :: "AnalysisResult \<Rightarrow> nat" where
  "result_total_dependencies r = sum_list (map total_dependencies (files r))"

text \<open>
  \<open>dependency_type_distribution\<close>: the two nested loops, with the dictionary as the
  accumulator. \<open>distribution.get(t, 0)\<close> is \<open>get_or_zero\<close> and
  \<open>distribution[t] = distribution.get(t, 0) + 1\<close> is \<open>count_type\<close>.
\<close>

definition get_or_zero :: "('k \<times> nat) list \<Rightarrow> 'k \<Rightarrow> nat" where
  "get_or_zero d k = (case map_of d k of None \<Rightarrow> 0 | Some c \<Rightarrow> c)"

definition count_type :: "(DependencyType \<times> nat) list \<Rightarrow> DependencyType \<Rightarrow> (DependencyType \<times> nat) list" where
  "count_type distribution t = AList.update t (get_or_zero distribution t + 1) distribution"

fun count_dependencies :: "(DependencyType \<times> nat) list \<Rightarrow> Dependency list \<Rightarrow> (DependencyType \<times> nat) list" where
  "count_dependencies distribution [] = distribution"
| "count_dependencies distribution (dependency # rest) =
     count_dependencies (count_type distribution (dep_type dependency)) rest"

fun count_files :: "(DependencyType \<times> nat) list \<Rightarrow> FileAnalysis list \<Rightarrow> (DependencyType \<times> nat) list" where
  "count_files distribution [] = distribution"
| "count_files distribution (file_analysis # rest) =
     count_files (count_dependencies distribution (dependencies file_analysis)) rest"

definition dependency_type_distribution :: "AnalysisResult \<Rightarrow> (DependencyType \<times> nat) list" where
  "dependency_type_distribution r = count_files [] (files r)"

text \<open>
  \<open>sorted(xs, key=k, reverse=True)\<close> is stable: it orders by descending key and keeps
  elements with equal keys in their order in \<open>xs\<close>, which is what the stable
  \<^const>\<open>sort_key\<close> does on the negated key.
\<close>

definition sorted_reverse :: "('a \<Rightarrow> nat) \<Rightarrow> 'a list \<Rightarrow> 'a list" where
  "sorted_reverse k xs = sort_key (\<lambda>x. - int (k x)) xs"

definition get_hotspots :: "AnalysisResult \<Rightarrow> int \<Rightarrow> exn + FileAnalysis list" where
  "get_hotspots r limit =
     (if limit \<le> 0 then Inl ValueError
      else Inr (take (nat limit) (sorted_reverse total_dependencies (files_with_dependencies r))))"

definition get_files_by_dependency_type :: "AnalysisResult \<Rightarrow> DependencyType \<Rightarrow> FileAnalysis list" where
  "get_files_by_dependency_type r t = filter (\<lambda>f. t \<in> dependency_types f) (files r)"

text \<open>\<open>search_files\<close>: the loop over \<open>files_with_dependencies\<close>, appending the matches.\<close>

definition file_matches :: "string \<Rightarrow> FileAnalysis \<Rightarrow> bool" where
  "file_matches query_lower file_analysis =
     (let path_match = str_in query_lower (lower (relative_path file_analysis));
          context_match = list_ex (\<lambda>dep. str_in query_lower (lower (snippet dep)))
                            (dependencies file_analysis)
      in path_match \<or> context_match)"

fun search_loop :: "string \<Rightarrow> FileAnalysis list \<Rightarrow> FileAnalysis list \<Rightarrow> FileAnalysis list" where
  "search_loop query_lower matching_files [] = matching_files"
| "search_loop query_lower matching_files (file_analysis # rest) =
     search_loop query_lower
       (if file_matches query_lower file_analysis then matching_files @ [file_analysis]
        else matching_files) rest"

definition search_files :: "AnalysisResult \<Rightarrow> string \<Rightarrow> FileAnalysis list" where
  "search_files r query =
     (if length (strip query) < 2 then []
      else search_loop (lower query) [] (files_with_dependencies r))"

section \<open>In-memory cache (repositories.py, InMemoryCacheService)\<close>

text \<open>
  The two dictionaries of the object are kept separate, as in the class. Every method
  that reads \<open>datetime.now().timestamp()\<close> takes that reading as the argument \<open>now\<close>.
  A method returns its result, or the exception it raised, together with the object as
  the call left it.
\<close>

record ('k, 'v) InMemoryCache =
  cache :: "('k \<times> 'v) list"
  access_times :: "('k \<times> real) list"
  max_size :: int

definition new_cache :: "int \<Rightarrow> ('k, 'v) InMemoryCache" where
  "new_cache m = \<lparr>cache = [], access_times = [], max_size = m\<rparr>"

definition cache_get :: "real \<Rightarrow> 'k \<Rightarrow> ('k, 'v) InMemoryCache \<Rightarrow> 'v option \<times> ('k, 'v) InMemoryCache" where
  "cache_get now key c =
     (case map_of (cache c) key of
        Some v \<Rightarrow> (Some v, c\<lparr>access_times := AList.update key now (access_times c)\<rparr>)
      | None \<Rightarrow> (None, c))"

definition cache_delete :: "'k \<Rightarrow> ('k, 'v) InMemoryCache \<Rightarrow> (exn + unit) \<times> ('k, 'v) InMemoryCache" where
  "cache_delete key c =
     (if key \<in> set (dict_keys (cache c)) then
        (case dict_del key (cache c) of
           Inl e \<Rightarrow> (Inl e, c)
         | Inr d \<Rightarrow>
            (case dict_del key (access_times c) of
               Inl e \<Rightarrow> (Inl e, c\<lparr>cache := d\<rparr>)
             | Inr a \<Rightarrow> (Inr (), c\<lparr>cache := d, access_times := a\<rparr>)))
      else (Inr (), c))"

text \<open>
  \<open>min(self.access_times.keys(), key=lambda k: self.access_times[k])\<close> returns the first
  key, in dictionary order, whose time is least: the key of the first least pair.
\<close>

definition lru_key :: "('k \<times> real) list \<Rightarrow> 'k" where
  "lru_key atimes = fst (arg_min_list snd atimes)"

definition evict_lru :: "('k, 'v) InMemoryCache \<Rightarrow> (exn + unit) \<times> ('k, 'v) InMemoryCache" where
  "evict_lru c =
     (if access_times c = [] then (Inr (), c)
      else cache_delete (lru_key (access_times c)) c)"

definition cache_set :: "real \<Rightarrow> 'k \<Rightarrow> 'v \<Rightarrow> ('k, 'v) InMemoryCache \<Rightarrow> (exn + unit) \<times> ('k, 'v) InMemoryCache" where
  "cache_set now key v c =
     (case (if int (length (cache c)) \<ge> max_size c \<and> key \<notin> set (dict_keys (cache c))
            then evict_lru c else (Inr (), c)) of
        (Inl e, c1) \<Rightarrow> (Inl e, c1)
      | (Inr u, c1) \<Rightarrow>
          (Inr (), c1\<lparr>cache := AList.update key v (cache c1),
                      access_times := AList.update key now (access_times c1)\<rparr>))"

definition cache_clear :: "('k, 'v) InMemoryCache \<Rightarrow> ('k, 'v) InMemoryCache" where
  "cache_clear c = c\<lparr>cache := [], access_times := []\<rparr>"

definition cache_exists :: "'k \<Rightarrow> ('k, 'v) InMemoryCache \<Rightarrow> bool" where
  "cache_exists key c = (key \<in> set (dict_keys (cache c)))"

text \<open>A sequence of calls on one cache object; it stops at the first exception.\<close>

datatype ('k, 'v) cache_call =
    Get real 'k
  | Set real 'k 'v
  | Delete 'k
  | Clear

fun run_call :: "('k, 'v) cache_call \<Rightarrow> ('k, 'v) InMemoryCache \<Rightarrow> (exn + unit) \<times> ('k, 'v) InMemoryCache" where
  "run_call (Get now key) c = (Inr (), snd (cache_get now key c))"
| "run_call (Set now key v) c = cache_set now key v c"
| "run_call (Delete key) c = cache_delete key c"
| "run_call Clear c = (Inr (), cache_clear c)"

fun run_calls :: "('k, 'v) cache_call list \<Rightarrow> ('k, 'v) InMemoryCache \<Rightarrow> (exn + unit) \<times> ('k, 'v) InMemoryCache" where
  "run_calls [] c = (Inr (), c)"
| "run_calls (x # xs) c =
     (case run_call x c of
        (Inl e, c1) \<Rightarrow> (Inl e, c1)
      | (Inr u, c1) \<Rightarrow> run_calls xs c1)"

text \<open>
  The invariant of the object: both dictionaries have distinct keys (they are
  dictionaries), the same keys, and at most \<open>max_size\<close> entries.
\<close>

definition cache_inv :: "('k, 'v) InMemoryCache \<Rightarrow> bool" where
  "cache_inv c =
     (distinct (dict_keys (cache c)) \<and> distinct (dict_keys (access_times c)) \<and>
      set (dict_keys (cache c)) = set (dict_keys (access_times c)) \<and>
      int (length (cache c)) \<le> max_size c)"

text \<open>
  The clock reading of a call that accesses key \<open>k\<close> (a \<open>get\<close> or a \<open>set\<close> of that key),
  and the reading of the most recent such call in a sequence of calls.
\<close>

fun touches :: "'k \<Rightarrow> ('k, 'v) cache_call \<Rightarrow> real option" where
  "touches k (Get now key) = (if key = k then Some now else None)"
| "touches k (Set now key v) = (if key = k then Some now else None)"
| "touches k (Delete key) = None"
| "touches k Clear = None"

fun last_access :: "('k, 'v) cache_call list \<Rightarrow> 'k \<Rightarrow> real option" where
  "last_access [] k = None"
| "last_access (x # xs) k =
     (case last_access xs k of Some t \<Rightarrow> Some t | None \<Rightarrow> touches k x)"

section \<open>Serialisation (to\_dict and from\_dict)\<close>

text \<open>Sequencing of steps that may raise: the first exception ends the computation.\<close>

definition bindE :: "exn + 'a \<Rightarrow> ('a \<Rightarrow> exn + 'b) \<Rightarrow> exn + 'b" where
  "bindE m f = (case m of Inl e \<Rightarrow> Inl e | Inr x \<Rightarrow> f x)"

fun traverse :: "('a \<Rightarrow> exn + 'b) \<Rightarrow> 'a list \<Rightarrow> exn + 'b list" where
  "traverse f [] = Inr []"
| "traverse f (x # xs) =
     bindE (f x) (\<lambda>y. bindE (traverse f xs) (\<lambda>ys. Inr (y # ys)))"

text \<open>\<open>data[k]\<close>: \<open>KeyError\<close> on a dictionary without the key, \<open>TypeError\<close> on any other value.\<close>

definition py_subscript :: "pyval \<Rightarrow> string \<Rightarrow> exn + pyval" where
  "py_subscript data k =
     (case data of
        PDict d \<Rightarrow> (case map_of d k of Some v \<Rightarrow> Inr v | None \<Rightarrow> Inl KeyError)
      | _ \<Rightarrow> Inl TypeError)"

text \<open>\<open>data.get(k, default)\<close>: only a dictionary has the method.\<close>

definition py_get :: "pyval \<Rightarrow> string \<Rightarrow> pyval \<Rightarrow> exn + pyval" where
  "py_get data k dflt =
     (case data of
        PDict d \<Rightarrow> Inr (case map_of d k of Some v \<Rightarrow> v | None \<Rightarrow> dflt)
      | _ \<Rightarrow> Inl AttributeError)"

text \<open>
  Iteration (\<open>for x in data\<close>, \<open>tuple(data)\<close>): a list gives its elements, a dictionary
  its keys, a string its characters; nothing else is iterable.
\<close>

definition py_iter :: "pyval \<Rightarrow> exn + pyval list" where
  "py_iter data =
     (case data of
        PList xs \<Rightarrow> Inr xs
      | PDict d \<Rightarrow> Inr (map (\<lambda>kv. PStr (fst kv)) d)
      | PStr s \<Rightarrow> Inr (map (\<lambda>c. PStr [c]) s)
      | _ \<Rightarrow> Inl TypeError)"

text \<open>\<open>DependencyType(x)\<close>: the member whose value is \<open>x\<close>, else \<open>ValueError\<close>.\<close>

definition DependencyType_of :: "pyval \<Rightarrow> exn + DependencyType" where
  "DependencyType_of x =
     (case x of
        PStr s \<Rightarrow> (case find (\<lambda>t. type_value t = s) all_dependency_types of
                     Some t \<Rightarrow> Inr t | None \<Rightarrow> Inl ValueError)
      | _ \<Rightarrow> Inl ValueError)"

text \<open>
  The comparison \<open>x < 0\<close> of a \<open>__post_init__\<close> on a field annotated \<open>int\<close>: it
  raises \<open>TypeError\<close> on a value that is not a number. A float or a boolean passes it
  in Python while the field is an integer in the model.
\<close>

definition int_field :: "pyval \<Rightarrow> exn + int" where
  "int_field x =
     (case x of
        PInt n \<Rightarrow> if n < 0 then Inl ValueError else Inr n
      | PBool b \<Rightarrow> Inl Unmodelled
      | PFloat y \<Rightarrow> Inl Unmodelled
      | _ \<Rightarrow> Inl TypeError)"

text \<open>The same comparison on the field annotated \<open>float\<close>; an integer is a number too.\<close>

definition float_field :: "pyval \<Rightarrow> exn + real" where
  "float_field x =
     (case x of
        PFloat y \<Rightarrow> if y < 0 then Inl ValueError else Inr y
      | PInt n \<Rightarrow> if n < 0 then Inl ValueError else Inr (of_int n)
      | PBool b \<Rightarrow> Inl Unmodelled
      | _ \<Rightarrow> Inl TypeError)"

text \<open>
  The check \<open>not x.strip()\<close> of a \<open>__post_init__\<close>: \<open>AttributeError\<close> on a value
  without the method, \<open>ValueError\<close> on a blank string.
\<close>

definition nonblank_field :: "pyval \<Rightarrow> exn + string" where
  "nonblank_field x =
     (case x of
        PStr s \<Rightarrow> if strip s = [] then Inl ValueError else Inr s
      | _ \<Rightarrow> Inl AttributeError)"

text \<open>Fields that Python stores unchecked; the model has them typed.\<close>

definition str_field :: "pyval \<Rightarrow> exn + string" where
  "str_field x = (case x of PStr s \<Rightarrow> Inr s | _ \<Rightarrow> Inl Unmodelled)"

definition dict_field :: "pyval \<Rightarrow> exn + (string \<times> pyval) list" where
  "dict_field x = (case x of PDict d \<Rightarrow> Inr d | _ \<Rightarrow> Inl Unmodelled)"

definition optional_str_field :: "pyval \<Rightarrow> exn + string option" where
  "optional_str_field x =
     (case x of PNone \<Rightarrow> Inr None | PStr s \<Rightarrow> Inr (Some s) | _ \<Rightarrow> Inl Unmodelled)"

definition Dependency_to_dict :: "Dependency \<Rightarrow> pyval" where
  "Dependency_to_dict d =
     PDict [(''type'', PStr (type_value (dep_type d))),
            (''line'', PInt (line d)),
            (''context'', PStr (snippet d)),
            (''details'', PDict (details d))]"

definition Dependency_from_dict :: "pyval \<Rightarrow> exn + Dependency" where
  "Dependency_from_dict data =
     bindE (py_subscript data ''type'') (\<lambda>tv.
     bindE (DependencyType_of tv) (\<lambda>t.
     bindE (py_subscript data ''line'') (\<lambda>lv.
     bindE (py_subscript data ''context'') (\<lambda>cv.
     bindE (py_get data ''details'' (PDict [])) (\<lambda>dv.
     bindE (int_field lv) (\<lambda>l.
     bindE (nonblank_field cv) (\<lambda>c.
     bindE (dict_field dv) (\<lambda>d.
       Inr \<lparr>dep_type = t, line = l, snippet = c, details = d\<rparr>))))))))"

definition FileAnalysis_to_dict :: "FileAnalysis \<Rightarrow> pyval" where
  "FileAnalysis_to_dict f =
     PDict [(''file_path'', PStr (file_path f)),
            (''relative_path'', PStr (relative_path f)),
            (''dependencies'', PList (map Dependency_to_dict (dependencies f))),
            (''total_dependencies'', PInt (int (total_dependencies f))),
            (''error'', (case error f of None \<Rightarrow> PNone | Some e \<Rightarrow> PStr e))]"

definition FileAnalysis_from_dict :: "pyval \<Rightarrow> exn + FileAnalysis" where
  "FileAnalysis_from_dict data =
     bindE (py_get data ''dependencies'' (PList [])) (\<lambda>dl.
     bindE (py_iter dl) (\<lambda>items.
     bindE (traverse Dependency_from_dict items) (\<lambda>deps.
     bindE (py_subscript data ''file_path'') (\<lambda>fv.
     bindE (py_get data ''relative_path'' fv) (\<lambda>rv.
     bindE (py_get data ''error'' PNone) (\<lambda>ev.
     bindE (nonblank_field fv) (\<lambda>fp.
     bindE (nonblank_field rv) (\<lambda>rp.
     bindE (optional_str_field ev) (\<lambda>err.
       Inr \<lparr>file_path = fp, relative_path = rp, dependencies = deps, error = err\<rparr>)))))))))"

definition AnalysisMetadata_to_dict :: "AnalysisMetadata \<Rightarrow> pyval" where
  "AnalysisMetadata_to_dict m =
     PDict [(''timestamp'', PStr (timestamp m)),
            (''analysis_time_seconds'', PFloat (analysis_time_seconds m)),
            (''base_path'', PStr (base_path m)),
            (''analyzed_folders'', PList (map PStr (analyzed_folders m))),
            (''excluded_folders'', PList (map PStr (excluded_folders m))),
            (''total_files_analyzed'', PInt (total_files_analyzed m))]"

definition AnalysisMetadata_from_dict :: "pyval \<Rightarrow> exn + AnalysisMetadata" where
  "AnalysisMetadata_from_dict data =
     bindE (py_get data ''timestamp'' (PStr '''')) (\<lambda>tv.
     bindE (py_get data ''analysis_time_seconds'' (PFloat 0)) (\<lambda>sv.
     bindE (py_get data ''base_path'' (PStr '''')) (\<lambda>bv.
     bindE (py_get data ''analyzed_folders'' (PList [])) (\<lambda>av.
     bindE (py_iter av) (\<lambda>a_items.
     bindE (py_get data ''excluded_folders'' (PList [])) (\<lambda>xv.
     bindE (py_iter xv) (\<lambda>x_items.
     bindE (py_get data ''total_files_analyzed'' (PInt 0)) (\<lambda>nv.
     bindE (float_field sv) (\<lambda>secs.
     bindE (int_field nv) (\<lambda>n.
     bindE (str_field tv) (\<lambda>ts.
     bindE (str_field bv) (\<lambda>bp.
     bindE (traverse str_field a_items) (\<lambda>af.
     bindE (traverse str_field x_items) (\<lambda>xf.
       Inr \<lparr>timestamp = ts, analysis_time_seconds = secs, base_path = bp,
            analyzed_folders = af, excluded_folders = xf,
            total_files_analyzed = n\<rparr>))))))))))))))"

definition AnalysisResult_to_dict :: "AnalysisResult \<Rightarrow> pyval" where
  "AnalysisResult_to_dict r =
     PDict [(''files'', PList (map FileAnalysis_to_dict (files r))),
            (''analysis_metadata'', AnalysisMetadata_to_dict (metadata r))]"

definition AnalysisResult_from_dict :: "pyval \<Rightarrow> exn + AnalysisResult" where
  "AnalysisResult_from_dict data =
     bindE (py_get data ''files'' (PList [])) (\<lambda>fl.
     bindE (py_iter fl) (\<lambda>items.
     bindE (traverse FileAnalysis_from_dict items) (\<lambda>fs.
     bindE (py_get data ''analysis_metadata'' (PDict [])) (\<lambda>mv.
     bindE (AnalysisMetadata_from_dict mv) (\<lambda>m.
       Inr \<lparr>files = fs, metadata = m\<rparr>)))))"

text \<open>
  A valid result: every object in it passes the \<open>__post_init__\<close> of its class, so it
  can have been constructed.
\<close>

definition valid_file :: "FileAnalysis \<Rightarrow> bool" where
  "valid_file f =
     (FileAnalysis_post_init f = None \<and>
      list_all (\<lambda>d. Dependency_post_init d = None) (dependencies f))"

definition valid_result :: "AnalysisResult \<Rightarrow> bool" where
  "valid_result r =
     (list_all valid_file (files r) \<and> AnalysisMetadata_post_init (metadata r) = None)"

section \<open>Summary statistics\<close>

record SummaryStatistics =
  stat_total_files :: nat
  stat_files_with_dependencies :: nat
  stat_total_dependencies :: nat
  dependency_type_counts :: "(string \<times> nat) list"
  analysis_metadata :: pyval

text \<open>The dictionary comprehension \<open>{k: v for ...}\<close> stores the pairs one by one.\<close>

definition dict_of :: "('k \<times> 'v) list \<Rightarrow> ('k \<times> 'v) list" where
  "dict_of kvs = foldl (\<lambda>d kv. AList.update (fst kv) (snd kv) d) [] kvs"

definition from_analysis_result :: "AnalysisResult \<Rightarrow> SummaryStatistics" where
  "from_analysis_result r =
     (let type_counts =
            dict_of (map (\<lambda>tc. (type_value (fst tc), snd tc)) (dependency_type_distribution r))
      in \<lparr>stat_total_files = total_files r,
          stat_files_with_dependencies = length (files_with_dependencies r),
          stat_total_dependencies = result_total_dependencies r,
          dependency_type_counts = type_counts,
          analysis_metadata = AnalysisMetadata_to_dict (metadata r)\<rparr>)"

section \<open>The running system: clock, document, cache objects\<close>

text \<open>
  What a cache holds and what the cached service operations return: Python puts no type
  on either, so one type covers the four kinds of object the analysis layer stores.
\<close>

datatype py_object =
    VResult AnalysisResult
  | VStats SummaryStatistics
  | VFiles "FileAnalysis list"
  | VDicts "pyval list"

text \<open>The two implementations of the \<open>CacheService\<close> interface.\<close>

datatype CacheService =
    InMemoryCacheService "(string, py_object) InMemoryCache"
  | NullCacheService

text \<open>
  The analysis document on disk. \<open>json.load\<close> is not modelled: a regular file is
  unreadable, not decodable as UTF-8, not JSON, or holds a JSON value.
\<close>

datatype file_content =
    Unreadable
  | BadEncoding
  | InvalidJson
  | Json pyval

datatype document =
    Missing
  | Directory
  | RegularFile real file_content

text \<open>
  Calls on the collaborators of the service, in the order they are made. This log is not
  in the source; it records which repository and cache methods an operation invokes.
\<close>

datatype call =
    CacheGet nat string
  | CacheSet nat string
  | CacheDelete nat string
  | CacheClear nat
  | RepositoryLoad
  | RepositoryLastModified

text \<open>
  The two metrics collectors. The simple collector is modelled by the list of what it was
  asked to record (its four dictionaries are functions of that list).
\<close>

datatype metric =
    AnalysisTime string real
  | CacheHit string
  | CacheMiss string
  | ErrorRecorded string exn

datatype MetricsCollector =
    SimpleMetricsCollector "metric list"
  | NullMetricsCollector

text \<open>
  The state of the system. \<open>clock n\<close> is the \<open>n\<close>-th reading of the system clock
  (\<open>time.time()\<close>, \<open>datetime.now()\<close>) and \<open>ticks\<close> counts the readings made so far.
  Cache objects live in \<open>heap\<close>; the repository and the service each hold an optional
  reference, and the two may refer to the same object (the default factory wires them so).
\<close>

record world =
  clock :: "nat \<Rightarrow> real"
  ticks :: nat
  strftime :: "real \<Rightarrow> string"
  document :: document
  heap :: "nat \<Rightarrow> CacheService"
  calls :: "call list"
  file_name :: string
  repository_cache :: "nat option"
  service_cache :: "nat option"
  metrics_collector :: "MetricsCollector option"
  analysis_result :: "py_object option"
  last_loaded_time :: "real option"

definition read_clock :: "world \<Rightarrow> real \<times> world" where
  "read_clock w = (clock w (ticks w), w\<lparr>ticks := Suc (ticks w)\<rparr>)"

definition log_call :: "call \<Rightarrow> world \<Rightarrow> world" where
  "log_call c w = w\<lparr>calls := calls w @ [c]\<rparr>"

text \<open>
  The methods of the cache object at address \<open>a\<close>. \<open>get\<close> of the in-memory cache reads
  the clock only when the key is present, \<open>set\<close> reads it after the eviction.
\<close>

definition cs_get :: "nat \<Rightarrow> string \<Rightarrow> world \<Rightarrow> py_object option \<times> world" where
  "cs_get a key w0 =
     (let w = log_call (CacheGet a key) w0 in
      case heap w a of
        NullCacheService \<Rightarrow> (None, w)
      | InMemoryCacheService c \<Rightarrow>
          if cache_exists key c then
            (let (now, w1) = read_clock w; (v, c1) = cache_get now key c
             in (v, w1\<lparr>heap := (heap w1)(a := InMemoryCacheService c1)\<rparr>))
          else (None, w))"

definition cs_set :: "nat \<Rightarrow> string \<Rightarrow> py_object \<Rightarrow> world \<Rightarrow> (exn + unit) \<times> world" where
  "cs_set a key v w0 =
     (let w = log_call (CacheSet a key) w0 in
      case heap w a of
        NullCacheService \<Rightarrow> (Inr (), w)
      | InMemoryCacheService c \<Rightarrow>
          (case (if int (length (cache c)) \<ge> max_size c \<and> key \<notin> set (dict_keys (cache c))
                 then evict_lru c else (Inr (), c)) of
             (Inl e, c1) \<Rightarrow> (Inl e, w\<lparr>heap := (heap w)(a := InMemoryCacheService c1)\<rparr>)
           | (Inr u, c1) \<Rightarrow>
               (let (now, w1) = read_clock w; (r, c2) = cache_set now key v c
                in (r, w1\<lparr>heap := (heap w1)(a := InMemoryCacheService c2)\<rparr>))))"

text \<open>What \<open>get\<close> would return for a key, without calling it.\<close>

definition cached :: "world \<Rightarrow> nat option \<Rightarrow> string \<Rightarrow> py_object option" where
  "cached w ref key =
     (case ref of
        None \<Rightarrow> None
      | Some a \<Rightarrow>
         (case heap w a of
            NullCacheService \<Rightarrow> None
          | InMemoryCacheService c \<Rightarrow> map_of (cache c) key))"

section \<open>Repository (repositories.py, JsonAnalysisDataRepository)\<close>

definition repository_cache_key :: "world \<Rightarrow> string" where
  "repository_cache_key w = ''analysis_result_'' @ file_name w"

definition create_empty_result :: "world \<Rightarrow> AnalysisResult \<times> world" where
  "create_empty_result w =
     (let (now, w1) = read_clock w;
          empty_metadata = \<lparr>timestamp = strftime w now, analysis_time_seconds = 0,
                            base_path = '''', analyzed_folders = [], excluded_folders = [],
                            total_files_analyzed = 0\<rparr>
      in (\<lparr>files = [], metadata = empty_metadata\<rparr>, w1))"

text \<open>The part of \<open>load_analysis_result\<close> after the cache lookup: "Load from file".\<close>

definition load_from_file :: "world \<Rightarrow> (exn + py_object) \<times> world" where
  "load_from_file w =
     (case document w of
        Missing \<Rightarrow> (let (r, w1) = create_empty_result w in (Inr (VResult r), w1))
      | Directory \<Rightarrow> (Inl IOError, w)
      | RegularFile mtime Unreadable \<Rightarrow> (Inl IOError, w)
      | RegularFile mtime BadEncoding \<Rightarrow> (Inl UnicodeDecodeError, w)
      | RegularFile mtime InvalidJson \<Rightarrow> (Inl JSONDecodeError, w)
      | RegularFile mtime (Json data) \<Rightarrow>
          (case AnalysisResult_from_dict data of
             Inl e \<Rightarrow> (Inl e, w)
           | Inr r \<Rightarrow>
              (case repository_cache w of
                 None \<Rightarrow> (Inr (VResult r), w)
               | Some a \<Rightarrow>
                  (case cs_set a (repository_cache_key w) (VResult r) w of
                     (Inl e, w1) \<Rightarrow> (Inl e, w1)
                   | (Inr u, w1) \<Rightarrow> (Inr (VResult r), w1)))))"

text \<open>The \<open>try\<close> block of \<open>load_analysis_result\<close>.\<close>

definition load_try :: "world \<Rightarrow> (exn + py_object) \<times> world" where
  "load_try w =
     (case repository_cache w of
        None \<Rightarrow> load_from_file w
      | Some a \<Rightarrow>
         (case cs_get a (repository_cache_key w) w of
            (Some cached_result, w1) \<Rightarrow> (Inr cached_result, w1)
          | (None, w1) \<Rightarrow> load_from_file w1))"

text \<open>
  Its \<open>except\<close> clauses: the JSON error, then \<open>KeyError\<close>, \<open>ValueError\<close> (with its
  subclasses) and \<open>TypeError\<close>, then \<open>IOError\<close> become a \<open>RepositoryError\<close>; any
  other exception passes.
\<close>

definition repository_except :: "exn \<Rightarrow> exn" where
  "repository_except e =
     (if e = JSONDecodeError then RepositoryError e
      else if e = KeyError \<or> is_ValueError e \<or> e = TypeError then RepositoryError e
      else if e = IOError then RepositoryError e
      else e)"

definition load_analysis_result :: "world \<Rightarrow> (exn + py_object) \<times> world" where
  "load_analysis_result w =
     (case load_try (log_call RepositoryLoad w) of
        (Inl e, w1) \<Rightarrow> (Inl (repository_except e), w1)
      | (Inr r, w1) \<Rightarrow> (Inr r, w1))"

definition get_last_modified :: "world \<Rightarrow> real option \<times> world" where
  "get_last_modified w =
     (case document w of
        RegularFile mtime content \<Rightarrow> Some mtime
      | _ \<Rightarrow> None,
      log_call RepositoryLastModified w)"

section \<open>Validation (services.py, StandardValidationService)\<close>

definition validate_search_query :: "string \<Rightarrow> bool" where
  "validate_search_query query =
     (let query_length = int (length (strip query))
      in 0 \<le> query_length \<and> query_length \<le> 100)"

definition validate_limit_parameter :: "int \<Rightarrow> bool" where
  "validate_limit_parameter limit = (1 \<le> limit \<and> limit \<le> 1000)"

definition validate_dependency_type :: "string \<Rightarrow> bool" where
  "validate_dependency_type dep_type_value =
     (dep_type_value \<in> set (map type_value all_dependency_types))"

definition validate_file_path :: "string \<Rightarrow> bool" where
  "validate_file_path path =
     (let stripped_path = strip path
      in 0 < length stripped_path \<and> length stripped_path < 1000)"

section \<open>Analysis service (services.py, BranchDependencyAnalysisService)\<close>

text \<open>Calls on the optional metrics collector (\<open>if self.metrics_collector: ...\<close>).\<close>

definition record_metric :: "metric \<Rightarrow> world \<Rightarrow> world" where
  "record_metric m w =
     (case metrics_collector w of
        Some (SimpleMetricsCollector ms) \<Rightarrow>
          w\<lparr>metrics_collector := Some (SimpleMetricsCollector (ms @ [m]))\<rparr>
      | _ \<Rightarrow> w)"

text \<open>
  The block "Record metrics" at the end of an operation: the clock is read only when a
  collector is present.
\<close>

definition record_time :: "string \<Rightarrow> real \<Rightarrow> world \<Rightarrow> world" where
  "record_time operation start_time w =
     (case metrics_collector w of
        None \<Rightarrow> w
      | Some mc \<Rightarrow>
          (let (now, w1) = read_clock w
           in record_metric (AnalysisTime operation (now - start_time)) w1))"

text \<open>
  The block "Check cache": the cached object if the service has a cache and the cache
  holds the key, with the hit or miss recorded.
\<close>

definition check_cache :: "string \<Rightarrow> world \<Rightarrow> py_object option \<times> world" where
  "check_cache cache_key w =
     (case service_cache w of
        None \<Rightarrow> (None, w)
      | Some a \<Rightarrow>
         (case cs_get a cache_key w of
            (Some v, w1) \<Rightarrow> (Some v, record_metric (CacheHit cache_key) w1)
          | (None, w1) \<Rightarrow> (None, record_metric (CacheMiss cache_key) w1)))"

text \<open>The block "Cache the result".\<close>

definition cache_the_result :: "string \<Rightarrow> py_object \<Rightarrow> world \<Rightarrow> (exn + unit) \<times> world" where
  "cache_the_result cache_key v w =
     (case service_cache w of
        None \<Rightarrow> (Inr (), w)
      | Some a \<Rightarrow> cs_set a cache_key v w)"

definition should_reload_data :: "world \<Rightarrow> bool \<times> world" where
  "should_reload_data w =
     (case last_loaded_time w of
        None \<Rightarrow> (True, w)
      | Some loaded \<Rightarrow>
         (case get_last_modified w of
            (None, w1) \<Rightarrow> (False, w1)
          | (Some last_modified, w1) \<Rightarrow> (last_modified > loaded, w1)))"

text \<open>
  \<open>_get_analysis_result\<close>. The two assignments happen only after a load that returned;
  the held object is then what the repository returned and the load time is a new clock
  reading.
\<close>

definition reload :: "world \<Rightarrow> (exn + py_object) \<times> world" where
  "reload w =
     (case load_analysis_result w of
        (Inl e, w1) \<Rightarrow> (Inl e, w1)
      | (Inr r, w1) \<Rightarrow>
          (let (now, w2) = read_clock w1
           in (Inr r, w2\<lparr>analysis_result := Some r, last_loaded_time := Some now\<rparr>)))"

definition get_analysis_result :: "world \<Rightarrow> (exn + py_object) \<times> world" where
  "get_analysis_result w =
     (case analysis_result w of
        None \<Rightarrow> reload w
      | Some held \<Rightarrow>
         (case should_reload_data w of
            (True, w1) \<Rightarrow> reload w1
          | (False, w1) \<Rightarrow> (Inr held, w1)))"

text \<open>
  Using the held object as an \<open>AnalysisResult\<close>: an attribute of that class is missing
  on any other object.
\<close>

definition as_result :: "py_object \<Rightarrow> exn + AnalysisResult" where
  "as_result v = (case v of VResult r \<Rightarrow> Inr r | _ \<Rightarrow> Inl AttributeError)"

text \<open>
  The \<open>except\<close> clauses of an operation, applied to the outcome of its \<open>try\<close> block.
  With \<open>reraise\<close> the operation has the clause that re-raises a \<open>ValueError\<close> as it is;
  every other exception is recorded and wrapped.
\<close>

definition service_except :: "string \<Rightarrow> bool \<Rightarrow> (exn + 'a) \<times> world \<Rightarrow> (exn + 'a) \<times> world" where
  "service_except operation reraise outcome =
     (case outcome of
        (Inr v, w) \<Rightarrow> (Inr v, w)
      | (Inl e, w) \<Rightarrow>
          if reraise \<and> is_ValueError e then (Inl e, w)
          else (Inl (AnalysisError e), record_metric (ErrorRecorded operation e) w))"

text \<open>\<open>get_summary_statistics\<close>\<close>

definition summary_try :: "real \<Rightarrow> world \<Rightarrow> (exn + py_object) \<times> world" where
  "summary_try start_time w =
     (let cache_key = ''summary_statistics'' in
      case check_cache cache_key w of
        (Some cached_stats, w1) \<Rightarrow> (Inr cached_stats, w1)
      | (None, w1) \<Rightarrow>
         (case get_analysis_result w1 of
            (Inl e, w2) \<Rightarrow> (Inl e, w2)
          | (Inr held, w2) \<Rightarrow>
             (case as_result held of
                Inl e \<Rightarrow> (Inl e, w2)
              | Inr r \<Rightarrow>
                 (let summary_stats = VStats (from_analysis_result r) in
                  case cache_the_result cache_key summary_stats w2 of
                    (Inl e, w3) \<Rightarrow> (Inl e, w3)
                  | (Inr u, w3) \<Rightarrow>
                      (Inr summary_stats, record_time ''get_summary_statistics'' start_time w3)))))"

definition get_summary_statistics :: "world \<Rightarrow> (exn + py_object) \<times> world" where
  "get_summary_statistics w =
     (let (start_time, w1) = read_clock w
      in service_except ''get_summary_statistics'' False (summary_try start_time w1))"

text \<open>\<open>find_dependency_hotspots\<close>\<close>

definition hotspots_try :: "real \<Rightarrow> int \<Rightarrow> world \<Rightarrow> (exn + py_object) \<times> world" where
  "hotspots_try start_time limit w =
     (if \<not> validate_limit_parameter limit then (Inl ValueError, w)
      else
        (let cache_key = ''hotspots_'' @ str_int limit in
         case check_cache cache_key w of
           (Some cached_hotspots, w1) \<Rightarrow> (Inr cached_hotspots, w1)
         | (None, w1) \<Rightarrow>
            (case get_analysis_result w1 of
               (Inl e, w2) \<Rightarrow> (Inl e, w2)
             | (Inr held, w2) \<Rightarrow>
                (case bindE (as_result held) (\<lambda>r. get_hotspots r limit) of
                   Inl e \<Rightarrow> (Inl e, w2)
                 | Inr hotspots \<Rightarrow>
                    (case cache_the_result cache_key (VFiles hotspots) w2 of
                       (Inl e, w3) \<Rightarrow> (Inl e, w3)
                     | (Inr u, w3) \<Rightarrow>
                         (Inr (VFiles hotspots),
                          record_time ''find_dependency_hotspots'' start_time w3))))))"

definition find_dependency_hotspots :: "int \<Rightarrow> world \<Rightarrow> (exn + py_object) \<times> world" where
  "find_dependency_hotspots limit w =
     (let (start_time, w1) = read_clock w
      in service_except ''find_dependency_hotspots'' True (hotspots_try start_time limit w1))"

text \<open>
  \<open>get_dependencies_by_type\<close>. The two nested loops append, for every file in order and
  every dependency of the type in that file in order, the dictionary of the dependency
  with the key \<open>file\<close> set to the relative path of the file.
\<close>

definition dep_dict :: "FileAnalysis \<Rightarrow> Dependency \<Rightarrow> pyval" where
  "dep_dict file_analysis dependency =
     (case Dependency_to_dict dependency of
        PDict d \<Rightarrow> PDict (AList.update ''file'' (PStr (relative_path file_analysis)) d)
      | other \<Rightarrow> other)"

fun append_file_deps :: "FileAnalysis \<Rightarrow> pyval list \<Rightarrow> Dependency list \<Rightarrow> pyval list" where
  "append_file_deps file_analysis acc [] = acc"
| "append_file_deps file_analysis acc (dependency # rest) =
     append_file_deps file_analysis (acc @ [dep_dict file_analysis dependency]) rest"

fun collect_dependencies :: "DependencyType \<Rightarrow> pyval list \<Rightarrow> FileAnalysis list \<Rightarrow> pyval list" where
  "collect_dependencies t acc [] = acc"
| "collect_dependencies t acc (file_analysis # rest) =
     collect_dependencies t
       (append_file_deps file_analysis acc (file_dependencies_by_type file_analysis t)) rest"

definition by_type_try :: "real \<Rightarrow> DependencyType \<Rightarrow> world \<Rightarrow> (exn + py_object) \<times> world" where
  "by_type_try start_time t w =
     (if \<not> validate_dependency_type (type_value t) then (Inl ValueError, w)
      else
        (let cache_key = ''dependencies_by_type_'' @ type_value t in
         case check_cache cache_key w of
           (Some cached_deps, w1) \<Rightarrow> (Inr cached_deps, w1)
         | (None, w1) \<Rightarrow>
            (case get_analysis_result w1 of
               (Inl e, w2) \<Rightarrow> (Inl e, w2)
             | (Inr held, w2) \<Rightarrow>
                (case as_result held of
                   Inl e \<Rightarrow> (Inl e, w2)
                 | Inr r \<Rightarrow>
                    (let deps = collect_dependencies t [] (files r) in
                     case cache_the_result cache_key (VDicts deps) w2 of
                       (Inl e, w3) \<Rightarrow> (Inl e, w3)
                     | (Inr u, w3) \<Rightarrow>
                         (Inr (VDicts deps),
                          record_time ''get_dependencies_by_type'' start_time w3))))))"

definition get_dependencies_by_type :: "DependencyType \<Rightarrow> world \<Rightarrow> (exn + py_object) \<times> world" where
  "get_dependencies_by_type t w =
     (let (start_time, w1) = read_clock w
      in service_except ''get_dependencies_by_type'' True (by_type_try start_time t w1))"

text \<open>\<open>search_dependencies\<close>: never cached.\<close>

definition search_try :: "real \<Rightarrow> string \<Rightarrow> world \<Rightarrow> (exn + FileAnalysis list) \<times> world" where
  "search_try start_time query w =
     (if \<not> validate_search_query query then (Inl ValueError, w)
      else
        (case get_analysis_result w of
           (Inl e, w1) \<Rightarrow> (Inl e, w1)
         | (Inr held, w1) \<Rightarrow>
            (case as_result held of
               Inl e \<Rightarrow> (Inl e, w1)
             | Inr r \<Rightarrow>
                 (Inr (search_files r query),
                  record_time ''search_dependencies'' start_time w1))))"

definition search_dependencies :: "string \<Rightarrow> world \<Rightarrow> (exn + FileAnalysis list) \<times> world" where
  "search_dependencies query w =
     (let (start_time, w1) = read_clock w
      in service_except ''search_dependencies'' True (search_try start_time query w1))"

text \<open>
  \<open>get_file_analysis\<close>: the first file whose relative or absolute path is the given
  path; the time is recorded only when a file is found.
\<close>

definition file_analysis_try :: "real \<Rightarrow> string \<Rightarrow> world \<Rightarrow> (exn + FileAnalysis option) \<times> world" where
  "file_analysis_try start_time path w =
     (if \<not> validate_file_path path then (Inl ValueError, w)
      else
        (case get_analysis_result w of
           (Inl e, w1) \<Rightarrow> (Inl e, w1)
         | (Inr held, w1) \<Rightarrow>
            (case as_result held of
               Inl e \<Rightarrow> (Inl e, w1)
             | Inr r \<Rightarrow>
                (case find (\<lambda>f. relative_path f = path \<or> file_path f = path) (files r) of
                   Some file_analysis \<Rightarrow>
                     (Inr (Some file_analysis),
                      record_time ''get_file_analysis'' start_time w1)
                 | None \<Rightarrow> (Inr None, w1)))))"

definition get_file_analysis :: "string \<Rightarrow> world \<Rightarrow> (exn + FileAnalysis option) \<times> world" where
  "get_file_analysis path w =
     (let (start_time, w1) = read_clock w
      in service_except ''get_file_analysis'' True (file_analysis_try start_time path w1))"

text \<open>How often \<open>repository.load_analysis_result()\<close> has been called so far.\<close>

definition repository_loads :: "world \<Rightarrow> nat" where
  "repository_loads w = length (filter (\<lambda>c. c = RepositoryLoad) (calls w))"

text \<open>\<open>clear\<close> of the cache object at address \<open>a\<close>, and \<open>refresh_analysis\<close>.\<close>

definition cs_clear :: "nat \<Rightarrow> world \<Rightarrow> world" where
  "cs_clear a w0 =
     (let w = log_call (CacheClear a) w0 in
      case heap w a of
        NullCacheService \<Rightarrow> w
      | InMemoryCacheService c \<Rightarrow> w\<lparr>heap := (heap w)(a := InMemoryCacheService (cache_clear c))\<rparr>)"

definition refresh_try :: "world \<Rightarrow> (exn + unit) \<times> world" where
  "refresh_try w =
     (let w1 = w\<lparr>analysis_result := None, last_loaded_time := None\<rparr>;
          w2 = (case service_cache w1 of None \<Rightarrow> w1 | Some a \<Rightarrow> cs_clear a w1)
      in case get_analysis_result w2 of
           (Inl e, w3) \<Rightarrow> (Inl e, w3)
         | (Inr r, w3) \<Rightarrow> (Inr (), w3))"

definition refresh_analysis :: "world \<Rightarrow> (exn + unit) \<times> world" where
  "refresh_analysis w = service_except ''refresh_analysis'' False (refresh_try w)"

section \<open>Histories of the service\<close>

text \<open>
  What can happen to a running service: a caller invokes one of its operations (an
  exception ends the operation, not the service), or the scan pipeline rewrites or
  removes the document.
\<close>

datatype service_call =
    GetSummaryStatistics
  | FindDependencyHotspots int
  | GetDependenciesByType DependencyType
  | SearchDependencies string
  | GetFileAnalysis string
  | RefreshAnalysis
  | DocumentRewritten document

fun after_call :: "service_call \<Rightarrow> world \<Rightarrow> world" where
  "after_call GetSummaryStatistics w = snd (get_summary_statistics w)"
| "after_call (FindDependencyHotspots limit) w = snd (find_dependency_hotspots limit w)"
| "after_call (GetDependenciesByType t) w = snd (get_dependencies_by_type t w)"
| "after_call (SearchDependencies query) w = snd (search_dependencies query w)"
| "after_call (GetFileAnalysis path) w = snd (get_file_analysis path w)"
| "after_call RefreshAnalysis w = snd (refresh_analysis w)"
| "after_call (DocumentRewritten d) w = w\<lparr>document := d\<rparr>"

fun after_calls :: "service_call list \<Rightarrow> world \<Rightarrow> world" where
  "after_calls [] w = w"
| "after_calls (x # xs) w = after_calls xs (after_call x w)"

text \<open>A system that has just started: every in-memory cache is empty.\<close>

definition started :: "world \<Rightarrow> bool" where
  "started w =
     (\<forall>a. case heap w a of
            NullCacheService \<Rightarrow> True
          | InMemoryCacheService c \<Rightarrow> cache c = [])"

text \<open>
  What the entries of the caches are: under a key of \<open>find_dependency_hotspots\<close> the
  hotspots of some result for the limit of the key, under a key of
  \<open>get_dependencies_by_type\<close> the dependencies of the type of the key in some result,
  under the key of \<open>get_summary_statistics\<close> the summary of some result.
\<close>

definition entry_of_service :: "string \<Rightarrow> py_object \<Rightarrow> bool" where
  "entry_of_service key v =
     ((\<forall>limit. 1 \<le> limit \<longrightarrow> key = ''hotspots_'' @ str_int limit \<longrightarrow>
         (\<exists>r hs. get_hotspots r limit = Inr hs \<and> v = VFiles hs)) \<and>
      (\<forall>t. key = ''dependencies_by_type_'' @ type_value t \<longrightarrow>
         (\<exists>r :: AnalysisResult. v = VDicts (collect_dependencies t [] (files r)))) \<and>
      (key = ''summary_statistics'' \<longrightarrow> (\<exists>r. v = VStats (from_analysis_result r))))"

definition caches_consistent :: "world \<Rightarrow> bool" where
  "caches_consistent w =
     (\<forall>a c k v. heap w a = InMemoryCacheService c \<longrightarrow> map_of (cache c) k = Some v \<longrightarrow>
        entry_of_service k v)"

section \<open>Example environment\<close>

text \<open>
  A clock, a time format and heaps for concrete states: the clock counts up from 1000,
  every address of \<open>one_cache m\<close> holds a new in-memory cache of capacity \<open>m\<close>, and
  \<open>no_cache\<close> holds null caches.
\<close>

definition system_clock :: "nat \<Rightarrow> real" where
  "system_clock n = 1000 + real n"

definition iso_format :: "real \<Rightarrow> string" where
  "iso_format t = ''2024-01-01 10:00:00''"


definition no_cache :: "nat \<Rightarrow> CacheService" where
  "no_cache a = NullCacheService"

text \<open>Files and metadata for concrete results: a file with one dependency per given line.\<close>

definition example_file :: "string \<Rightarrow> DependencyType \<Rightarrow> int list \<Rightarrow> FileAnalysis" where
  "example_file name t lines =
     \<lparr>file_path = ''/srv/'' @ name, relative_path = name,
      dependencies = map (\<lambda>n. \<lparr>dep_type = t, line = n, snippet = ''$b = new Branch();'',
                                 details = [(''class_name'', PStr ''Branch'')]\<rparr>) lines,
      error = None\<rparr>"

definition example_metadata :: AnalysisMetadata where
  "example_metadata =
     \<lparr>timestamp = ''2024-01-01 09:00:00'', analysis_time_seconds = 2, base_path = ''/srv'',
      analyzed_folders = [''app''], excluded_folders = [], total_files_analyzed = 4\<rparr>"

text \<open>A service without caches or metrics that holds a result loaded at time 10.\<close>

definition holding :: "AnalysisResult \<Rightarrow> world" where
  "holding r =
     \<lparr>clock = system_clock, ticks = 0, strftime = iso_format, document = Missing,
      heap = no_cache, calls = [], file_name = ''deps.json'', repository_cache = None,
      service_cache = None, metrics_collector = None, analysis_result = Some (VResult r),
      last_loaded_time = Some 10\<rparr>"

section \<open>The cache: invariant and eviction\<close>


lemma keys_delete: "dict_keys (AList.delete k d) = removeAll k (dict_keys d)"
  by (induction d) (auto simp: dict_keys_def)

lemma keys_update: "dict_keys (AList.update k v d) = (if k \<in> set (dict_keys d) then dict_keys d else dict_keys d @ [k])"
  by (simp add: dict_keys_def update_keys)

lemma length_keys: "length (dict_keys d) = length d" by (simp add: dict_keys_def)

lemma map_of_None_keys: "(map_of d k = None) = (k \<notin> set (dict_keys d))"
  by (simp add: dict_keys_def map_of_eq_None_iff)

lemma map_of_Some_keys: "map_of d k = Some v \<Longrightarrow> k \<in> set (dict_keys d)"
  using map_of_None_keys[of d k] by auto

lemma cache_inv_new: "0 \<le> m \<Longrightarrow> cache_inv (new_cache m)"
  by (simp add: cache_inv_def new_cache_def dict_keys_def)

lemma keys_get: "cache_inv c \<Longrightarrow> dict_keys (access_times (snd (cache_get now k c))) = dict_keys (access_times c)"
  by (auto simp: cache_inv_def cache_get_def keys_update map_of_None_keys split: option.splits dest: map_of_Some_keys)

lemma cache_get_cache: "cache (snd (cache_get now k c)) = cache c" "max_size (snd (cache_get now k c)) = max_size c"
  by (auto simp: cache_get_def split: option.splits)

lemma cache_inv_get: "cache_inv c \<Longrightarrow> cache_inv (snd (cache_get now k c))"
  unfolding cache_inv_def[of "snd _"] cache_get_cache
  by (simp add: keys_get) (simp add: cache_inv_def)

lemma cache_inv_clear: "0 \<le> max_size c \<Longrightarrow> cache_inv (cache_clear c)"
  by (simp add: cache_inv_def cache_clear_def dict_keys_def)

lemma cache_delete_ok:
  assumes "set (dict_keys (cache c)) = set (dict_keys (access_times c))"
  shows "cache_delete k c = (Inr (), if k \<in> set (dict_keys (cache c)) then c\<lparr>cache := AList.delete k (cache c), access_times := AList.delete k (access_times c)\<rparr> else c)"
  using assms by (simp add: cache_delete_def dict_del_def)

lemma length_removeAll_distinct: "distinct xs \<Longrightarrow> x \<in> set xs \<Longrightarrow> Suc (length (removeAll x xs)) = length xs"
  by (induction xs) auto

lemma length_delete_le: "length (AList.delete k d) \<le> length d"
  by (simp add: AList.delete_eq)

lemma length_delete_distinct: "distinct (dict_keys d) \<Longrightarrow> k \<in> set (dict_keys d) \<Longrightarrow> Suc (length (AList.delete k d)) = length d"
  using length_removeAll_distinct[of "dict_keys d" k] by (simp add: keys_delete[symmetric] length_keys)

lemma cache_inv_delete: 
  assumes "cache_inv c" shows "cache_inv (snd (cache_delete k c))"
proof (cases "k \<in> set (dict_keys (cache c))")
  case False
  with assms show ?thesis by (simp add: cache_delete_ok cache_inv_def)
next
  case True
  have "length (AList.delete k (cache c)) \<le> length (cache c)" by (rule length_delete_le) 
  with True assms show ?thesis
    by (simp add: cache_delete_ok cache_inv_def keys_delete distinct_removeAll)
qed

lemma lru_key_in: "atimes \<noteq> [] \<Longrightarrow> lru_key atimes \<in> set (dict_keys atimes)"
  unfolding lru_key_def dict_keys_def using arg_min_list_in[of atimes snd] by simp

lemma cache_set_full:
  assumes inv: "cache_inv c" and full: "max_size c \<le> int (length (cache c))" and pos: "1 \<le> max_size c"
    and new: "key \<notin> set (dict_keys (cache c))"
  shows "cache_set now key v c =
     (Inr (), c\<lparr>cache := AList.update key v (AList.delete (lru_key (access_times c)) (cache c)),
               access_times := AList.update key now (AList.delete (lru_key (access_times c)) (access_times c))\<rparr>)"
proof -
  from full pos have "cache c \<noteq> []" by auto
  then have "dict_keys (cache c) \<noteq> []" by (simp add: dict_keys_def)
  with inv have ne: "access_times c \<noteq> []" by (auto simp: cache_inv_def dict_keys_def)
  from lru_key_in[OF ne] inv have "lru_key (access_times c) \<in> set (dict_keys (cache c))"
    by (simp add: cache_inv_def)
  with inv ne full new show ?thesis
    by (simp add: cache_set_def evict_lru_def cache_delete_ok cache_inv_def)
qed

lemma cache_set_room:
  assumes "\<not> (max_size c \<le> int (length (cache c)) \<and> key \<notin> set (dict_keys (cache c)))"
  shows "cache_set now key v c =
     (Inr (), c\<lparr>cache := AList.update key v (cache c),
               access_times := AList.update key now (access_times c)\<rparr>)"
  using assms by (auto simp add: cache_set_def)

lemma cache_inv_set:
  assumes inv: "cache_inv c" and pos: "1 \<le> max_size c"
  shows "fst (cache_set now key v c) = Inr () \<and> cache_inv (snd (cache_set now key v c))"
proof (cases "max_size c \<le> int (length (cache c)) \<and> key \<notin> set (dict_keys (cache c))")
  case True
  let ?l = "lru_key (access_times c)"
  from True pos have "cache c \<noteq> []" by auto
  then have "dict_keys (cache c) \<noteq> []" by (simp add: dict_keys_def)
  with inv have ne: "access_times c \<noteq> []" by (auto simp: cache_inv_def dict_keys_def)
  from lru_key_in[OF ne] inv have lin: "?l \<in> set (dict_keys (cache c))"
    by (simp add: cache_inv_def)
  from inv lin have len: "Suc (length (AList.delete ?l (cache c))) = length (cache c)"
    by (simp add: length_delete_distinct cache_inv_def)
  from True have knew: "key \<notin> set (dict_keys (AList.delete ?l (cache c)))"
    by (simp add: keys_delete)
  with inv have knew': "key \<notin> set (dict_keys (AList.delete ?l (access_times c)))"
    by (simp add: keys_delete cache_inv_def)
  have "length (AList.update key v (AList.delete ?l (cache c))) = length (cache c)"
    using knew len by (simp add: length_keys[symmetric] keys_update del: length_keys) 
  with inv True pos knew knew' show ?thesis
    by (simp add: cache_set_full cache_inv_def keys_update keys_delete distinct_removeAll)
next
  case False
  show ?thesis
  proof (cases "key \<in> set (dict_keys (cache c))")
    case True
    with inv False show ?thesis
      by (simp add: cache_set_room cache_inv_def keys_update length_keys[symmetric] del: length_keys)
  next
    case notin: False
    with False have "int (length (cache c)) < max_size c" by simp
    with inv notin False show ?thesis
      by (simp add: cache_set_room cache_inv_def keys_update length_keys[symmetric] del: length_keys)
  qed
qed


lemma max_size_run_call: "max_size (snd (run_call x c)) = max_size c"
  by (cases x) (auto simp: cache_get_def cache_set_def evict_lru_def cache_delete_def cache_clear_def dict_del_def split: option.splits sum.splits prod.splits if_splits)

lemma run_call_inv:
  assumes "cache_inv c" "1 \<le> max_size c"
  shows "fst (run_call x c) = Inr () \<and> cache_inv (snd (run_call x c))"
proof (cases x)
  case (Get now k) with assms show ?thesis by (simp add: cache_inv_get)
next
  case (Set now k v) with assms show ?thesis by (simp add: cache_inv_set)
next
  case (Delete k) with assms show ?thesis using cache_inv_delete[of c k] by (simp add: cache_delete_ok cache_inv_def)
next
  case Clear with assms show ?thesis by (simp add: cache_inv_clear)
qed

lemma run_calls_inv:
  "cache_inv c \<Longrightarrow> 1 \<le> max_size c \<Longrightarrow>
   fst (run_calls xs c) = Inr () \<and> cache_inv (snd (run_calls xs c)) \<and> max_size (snd (run_calls xs c)) = max_size c"
proof (induction xs arbitrary: c)
  case Nil then show ?case by simp
next
  case (Cons x xs)
  from run_call_inv[OF Cons.prems, of x] obtain c1 where c1: "run_call x c = (Inr (), c1)" "cache_inv c1"
    by (cases "run_call x c") auto
  from c1 max_size_run_call[of x c] Cons.prems have "1 \<le> max_size c1" "max_size c1 = max_size c" by auto
  with Cons.IH[of c1] c1 show ?case by simp
qed

lemma map_of_delete: "map_of (AList.delete k d) k' = (if k' = k then None else map_of d k')"
  by (simp add: delete_conv')

lemma map_of_update: "map_of (AList.update k v d) k' = (if k' = k then Some v else map_of d k')"
  by (simp add: update_conv')

lemma run_call_time:
  assumes inv: "cache_inv c" and pos: "1 \<le> max_size c"
    and k: "k \<in> set (dict_keys (cache (snd (run_call x c))))"
  shows "map_of (access_times (snd (run_call x c))) k =
           (case touches k x of Some t \<Rightarrow> Some t | None \<Rightarrow> map_of (access_times c) k)
         \<and> (touches k x = None \<longrightarrow> k \<in> set (dict_keys (cache c)))"
proof (cases x)
  case (Get now key)
  with k have kc: "k \<in> set (dict_keys (cache c))" by (simp add: cache_get_cache)
  then obtain v where "map_of (cache c) k = Some v" using map_of_None_keys[of "cache c" k] by auto
  with Get kc show ?thesis
    by (auto simp: cache_get_def map_of_update split: option.splits)
next
  case (Set now key v)
  show ?thesis
  proof (cases "max_size c \<le> int (length (cache c)) \<and> key \<notin> set (dict_keys (cache c))")
    case True
    with inv pos k Set show ?thesis
      by (auto simp: cache_set_full keys_update keys_delete map_of_update map_of_delete split: if_splits)
  next
    case False
    with k Set show ?thesis
      by (auto simp: cache_set_room keys_update map_of_update split: if_splits)
  qed
next
  case (Delete key)
  with inv k show ?thesis
    by (auto simp: cache_delete_ok cache_inv_def keys_delete map_of_delete split: if_splits)
next
  case Clear
  with k show ?thesis by (simp add: cache_clear_def dict_keys_def)
qed

lemma run_calls_time:
  "cache_inv c \<Longrightarrow> 1 \<le> max_size c \<Longrightarrow> k \<in> set (dict_keys (cache (snd (run_calls xs c)))) \<Longrightarrow>
   map_of (access_times (snd (run_calls xs c))) k =
     (case last_access xs k of Some t \<Rightarrow> Some t | None \<Rightarrow> map_of (access_times c) k)
   \<and> (last_access xs k = None \<longrightarrow> k \<in> set (dict_keys (cache c)))"
proof (induction xs arbitrary: c)
  case Nil then show ?case by simp
next
  case (Cons x xs)
  from run_call_inv[OF Cons.prems(1,2), of x] obtain c1 where c1: "run_call x c = (Inr (), c1)" "cache_inv c1"
    by (cases "run_call x c") auto
  from c1 max_size_run_call[of x c] Cons.prems have m1: "1 \<le> max_size c1" by auto
  from Cons.prems(3) c1 have k1: "k \<in> set (dict_keys (cache (snd (run_calls xs c1))))" by simp
  note ih = Cons.IH[OF c1(2) m1 k1]
  show ?case
  proof (cases "last_access xs k")
    case (Some t)
    with ih c1 show ?thesis by simp
  next
    case None
    with ih have kc1: "k \<in> set (dict_keys (cache c1))" by simp
    from run_call_time[OF Cons.prems(1,2), of k x] kc1 c1 
    have "map_of (access_times c1) k = (case touches k x of Some t \<Rightarrow> Some t | None \<Rightarrow> map_of (access_times c) k)"
      "touches k x = None \<longrightarrow> k \<in> set (dict_keys (cache c))" by auto
    with None ih c1 show ?thesis by (simp split: option.splits)
  qed
qed

lemma lru_key_least:
  assumes "distinct (dict_keys atimes)" "atimes \<noteq> []"
  shows "\<exists>t. map_of atimes (lru_key atimes) = Some t \<and> (\<forall>k t'. map_of atimes k = Some t' \<longrightarrow> t \<le> t')"
proof -
  let ?p = "arg_min_list snd atimes"
  have pin: "?p \<in> set atimes" using assms(2) by (rule arg_min_list_in)
  then have "(fst ?p, snd ?p) \<in> set atimes" by simp
  with assms(1) have m: "map_of atimes (fst ?p) = Some (snd ?p)" by (simp add: dict_keys_def)
  have "snd ?p = Min (snd ` set atimes)" using assms(2) by (rule f_arg_min_list_f)
  then have "\<forall>k t'. map_of atimes k = Some t' \<longrightarrow> snd ?p \<le> t'"
    by (auto dest!: map_of_SomeD intro!: Min_le simp: rev_image_eqI)
  with m show ?thesis by (simp add: lru_key_def)
qed

text \<open>
  Claim C6. Take a cache created with capacity \<open>m \<ge> 1\<close> and any sequence \<open>xs\<close> of calls on
  it that leaves it full. A \<open>set\<close> of a key that is not cached then succeeds and evicts
  exactly one key: a cached key whose most recent access (\<open>get\<close> or \<open>set\<close>, whichever came
  last) carries the least clock reading among all cached keys. Every other entry stays,
  the new key is stored, a later \<open>get\<close> of the evicted key returns \<open>None\<close>, and after
  \<open>clear\<close> no key exists.
\<close>

theorem lru_eviction:
  assumes "1 \<le> m"
    and "run_calls xs (new_cache m) = (r, c)"
    and "int (length (cache c)) = m"
    and "key \<notin> set (dict_keys (cache c))"
  shows "\<exists>evicted c' t.
           cache_set now key v c = (Inr (), c') \<and>
           evicted \<in> set (dict_keys (cache c)) \<and>
           last_access xs evicted = Some t \<and>
           (\<forall>k \<in> set (dict_keys (cache c)). \<exists>t'. last_access xs k = Some t' \<and> t \<le> t') \<and>
           set (dict_keys (cache c')) = insert key (set (dict_keys (cache c)) - {evicted}) \<and>
           (\<forall>k. k \<noteq> evicted \<longrightarrow> k \<noteq> key \<longrightarrow> map_of (cache c') k = map_of (cache c) k) \<and>
           map_of (cache c') key = Some v \<and>
           (\<forall>now'. fst (cache_get now' evicted c') = None) \<and>
           (\<forall>k. \<not> cache_exists k (cache_clear c'))"
proof -
  let ?n = "new_cache m :: ('a, 'b) InMemoryCache"
  have n: "cache_inv ?n" "1 \<le> max_size ?n" "max_size ?n = m" "cache ?n = []"
    using assms(1) by (simp_all add: cache_inv_new) (simp_all add: new_cache_def)
  from run_calls_inv[OF n(1,2), of xs] assms(2) n(3)
  have inv: "cache_inv c" and ms: "max_size c = m" by simp_all
  have time: "map_of (access_times c) k = last_access xs k \<and> last_access xs k \<noteq> None"
    if "k \<in> set (dict_keys (cache c))" for k
    using run_calls_time[OF n(1,2), of k xs] that assms(2) n(4)
    by (auto simp: dict_keys_def split: option.splits)
  let ?e = "lru_key (access_times c)"
  from assms(1,3) have "cache c \<noteq> []" by auto
  then have "dict_keys (cache c) \<noteq> []" by (simp add: dict_keys_def)
  with inv have ne: "access_times c \<noteq> []" by (auto simp: cache_inv_def dict_keys_def)
  from inv have dist: "distinct (dict_keys (access_times c))"
    and keys: "set (dict_keys (cache c)) = set (dict_keys (access_times c))"
    by (simp_all add: cache_inv_def)
  from lru_key_in[OF ne] keys have ein: "?e \<in> set (dict_keys (cache c))" by simp
  from lru_key_least[OF dist ne] obtain t where
    t: "map_of (access_times c) ?e = Some t"
       "\<forall>k t'. map_of (access_times c) k = Some t' \<longrightarrow> t \<le> t'" by blast
  from time[OF ein] t(1) have le: "last_access xs ?e = Some t" by simp
  have least: "\<forall>k \<in> set (dict_keys (cache c)). \<exists>t'. last_access xs k = Some t' \<and> t \<le> t'"
  proof
    fix k assume "k \<in> set (dict_keys (cache c))"
    from time[OF this] obtain t' where "last_access xs k = Some t'" "map_of (access_times c) k = Some t'"
      by auto
    with t(2) show "\<exists>t'. last_access xs k = Some t' \<and> t \<le> t'" by auto
  qed
  let ?c' = "c\<lparr>cache := AList.update key v (AList.delete ?e (cache c)),
               access_times := AList.update key now (AList.delete ?e (access_times c))\<rparr>"
  have set: "cache_set now key v c = (Inr (), ?c')"
    using inv assms(3,4) assms(1) ms by (simp add: cache_set_full)
  have k1: "set (dict_keys (cache ?c')) = insert key (set (dict_keys (cache c)) - {?e})"
    using assms(4) by (auto simp: keys_update keys_delete)
  have k2: "\<forall>k. k \<noteq> ?e \<longrightarrow> k \<noteq> key \<longrightarrow> map_of (cache ?c') k = map_of (cache c) k"
    by (simp add: map_of_update map_of_delete)
  have k3: "map_of (cache ?c') key = Some v" by (simp add: map_of_update)
  from ein assms(4) have "?e \<noteq> key" by auto
  then have k4: "\<forall>now'. fst (cache_get now' ?e ?c') = None"
    by (simp add: cache_get_def map_of_update map_of_delete)
  have k5: "\<forall>k. \<not> cache_exists k (cache_clear ?c')"
    by (simp add: cache_exists_def cache_clear_def dict_keys_def)
  from set ein le least k1 k2 k3 k4 k5 show ?thesis by blast
qed

theorem lru_eviction_witness:
  "(1::int) \<le> 2 \<and>
   run_calls [Set 1 ''a'' (10::nat), Set 2 ''b'' 20, Get 3 ''a''] (new_cache 2) =
     (Inr (), \<lparr>cache = [(''a'', 10), (''b'', 20)], access_times = [(''a'', 3), (''b'', 2)],
               max_size = 2\<rparr>) \<and>
   cache_set 4 ''c'' 30
     \<lparr>cache = [(''a'', 10::nat), (''b'', 20)], access_times = [(''a'', 3), (''b'', 2)],
      max_size = 2\<rparr> =
     (Inr (), \<lparr>cache = [(''a'', 10), (''c'', 30)], access_times = [(''a'', 3), (''c'', 4)],
               max_size = 2\<rparr>) \<and>
   (\<exists>evicted t. last_access [Set 1 ''a'' (10::nat), Set 2 ''b'' 20, Get 3 ''a''] evicted = Some t \<and>
      fst (cache_get 5 evicted
        \<lparr>cache = [(''a'', 10::nat), (''c'', 30)], access_times = [(''a'', 3), (''c'', 4)],
         max_size = 2\<rparr>) = None)"
proof -
  let ?xs = "[Set 1 ''a'' (10::nat), Set 2 ''b'' 20, Get 3 ''a'']"
  let ?c = "\<lparr>cache = [(''a'', 10::nat), (''b'', 20)], access_times = [(''a'', 3), (''b'', 2)],
             max_size = 2\<rparr>"
  have h1: "(1::int) \<le> 2" by simp
  have h2: "run_calls ?xs (new_cache 2) = (Inr (), ?c)"
    by (simp add: new_cache_def cache_set_def cache_get_def dict_keys_def)
  have h3: "int (length (cache ?c)) = 2" by simp
  have h4: "''c'' \<notin> set (dict_keys (cache ?c))" by (simp add: dict_keys_def)
  have s: "cache_set 4 ''c'' 30 ?c =
     (Inr (), \<lparr>cache = [(''a'', 10), (''c'', 30)], access_times = [(''a'', 3), (''c'', 4)],
               max_size = 2\<rparr>)"
    by (simp add: cache_set_def evict_lru_def lru_key_def cache_delete_def dict_del_def
        dict_keys_def)
  from lru_eviction [OF h1 h2 h3 h4, of 4 30] obtain evicted c' t where
    f: "cache_set 4 ''c'' 30 ?c = (Inr (), c')" "last_access ?xs evicted = Some t"
       "\<forall>now'. fst (cache_get now' evicted c') = None"
    by (elim exE conjE)
  from f(1) s have "c' = \<lparr>cache = [(''a'', 10), (''c'', 30)],
                          access_times = [(''a'', 3), (''c'', 4)], max_size = 2\<rparr>"
    by simp
  with f(2,3) have "\<exists>evicted t. last_access ?xs evicted = Some t \<and>
      fst (cache_get 5 evicted
        \<lparr>cache = [(''a'', 10::nat), (''c'', 30)], access_times = [(''a'', 3), (''c'', 4)],
         max_size = 2\<rparr>) = None"
    by blast
  with h1 h2 s show ?thesis by (intro conjI)
qed

text \<open>
  Claim C10. For a cache created with \<open>max_size \<ge> 1\<close>, every sequence of \<open>get\<close>, \<open>set\<close>,
  \<open>delete\<close> and \<open>clear\<close> calls, with any clock readings, runs without an exception and
  leaves a cache with at most \<open>max_size\<close> entries whose \<open>cache\<close> and \<open>access_times\<close>
  dictionaries have the same keys. Every prefix of a sequence is a sequence, so the
  invariant holds after each call.
\<close>

theorem cache_invariant:
  assumes "1 \<le> m"
  shows "\<exists>c. run_calls xs (new_cache m) = (Inr (), c) \<and>
             int (length (cache c)) \<le> m \<and>
             set (dict_keys (cache c)) = set (dict_keys (access_times c))"
proof -
  have "cache_inv (new_cache m)" "1 \<le> max_size (new_cache m :: ('a, 'b) InMemoryCache)" "max_size (new_cache m :: ('a, 'b) InMemoryCache) = m"
    using assms by (simp_all add: cache_inv_new) (simp_all add: new_cache_def)
  from run_calls_inv[OF this(1,2), of xs] this(3) show ?thesis
    by (cases "run_calls xs (new_cache m :: ('a, 'b) InMemoryCache)") (auto simp: cache_inv_def)
qed

theorem cache_invariant_witness:
  "(1::int) \<le> 2 \<and>
   (\<exists>c. run_calls [Set 1 ''a'' (10::nat), Set 2 ''b'' 20, Get 3 ''a'', Set 4 ''c'' 30,
                    Delete ''zz'', Set 5 ''d'' 40, Delete ''a'', Clear, Set 6 ''e'' 50]
            (new_cache 2) = (Inr (), c) \<and>
        int (length (cache c)) \<le> 2 \<and>
        set (dict_keys (cache c)) = set (dict_keys (access_times c)))"
proof -
  have h: "(1::int) \<le> 2" by simp
  show ?thesis by (rule conjI [OF h cache_invariant [OF h]])
qed


section \<open>The domain model: serialisation and summary\<close>

lemma bindE_Inr [simp]: "bindE (Inr x) f = f x" by (simp add: bindE_def)
lemma bindE_Inl [simp]: "bindE (Inl e) f = Inl e" by (simp add: bindE_def)

lemma traverse_map:
  "(\<And>x. x \<in> set xs \<Longrightarrow> f (g x) = Inr x) \<Longrightarrow> traverse f (map g xs) = Inr xs"
  by (induction xs) simp_all

lemma DependencyType_of_value: "DependencyType_of (PStr (type_value t)) = Inr t"
  by (cases t) (simp_all add: DependencyType_of_def all_dependency_types_def)

lemma Dependency_roundtrip:
  "Dependency_post_init d = None \<Longrightarrow> Dependency_from_dict (Dependency_to_dict d) = Inr d"
  by (simp add: Dependency_post_init_def Dependency_from_dict_def Dependency_to_dict_def
      py_subscript_def py_get_def DependencyType_of_value int_field_def nonblank_field_def
      dict_field_def split: if_splits)

lemma FileAnalysis_roundtrip:
  assumes "valid_file f"
  shows "FileAnalysis_from_dict (FileAnalysis_to_dict f) = Inr f"
proof -
  from assms have deps: "traverse Dependency_from_dict (map Dependency_to_dict (dependencies f)) = Inr (dependencies f)"
    by (intro traverse_map Dependency_roundtrip) (simp add: valid_file_def list_all_iff)
  from assms have "strip (file_path f) \<noteq> []" "strip (relative_path f) \<noteq> []"
    by (simp_all add: valid_file_def FileAnalysis_post_init_def split: if_splits)
  with deps show ?thesis
    by (simp add: FileAnalysis_from_dict_def FileAnalysis_to_dict_def py_subscript_def py_get_def
        py_iter_def nonblank_field_def optional_str_field_def split: option.splits)
qed

lemma AnalysisMetadata_roundtrip:
  assumes "AnalysisMetadata_post_init m = None"
  shows "AnalysisMetadata_from_dict (AnalysisMetadata_to_dict m) = Inr m"
proof -
  have t: "traverse str_field (map PStr xs) = Inr xs" for xs
    by (rule traverse_map) (simp add: str_field_def)
  from assms have "\<not> analysis_time_seconds m < 0" "\<not> total_files_analyzed m < 0"
    by (simp_all add: AnalysisMetadata_post_init_def split: if_splits)
  with t show ?thesis
    by (simp add: AnalysisMetadata_from_dict_def AnalysisMetadata_to_dict_def py_get_def
        py_iter_def float_field_def int_field_def str_field_def)
qed

text \<open>
  Claim C3. For every valid result \<open>r\<close> (one whose objects all pass their
  \<open>__post_init__\<close>), \<open>AnalysisResult.from_dict(r.to_dict())\<close> raises nothing and
  returns a result equal to \<open>r\<close>: the same files in the same order with the same
  paths, error and dependencies (type, line, context, details), and the same metadata.
\<close>

theorem to_dict_from_dict_roundtrip:
  assumes "valid_result r"
  shows "AnalysisResult_from_dict (AnalysisResult_to_dict r) = Inr r"
proof -
  from assms have fs: "traverse FileAnalysis_from_dict (map FileAnalysis_to_dict (files r)) = Inr (files r)"
    by (intro traverse_map FileAnalysis_roundtrip) (simp add: valid_result_def list_all_iff)
  from assms have "AnalysisMetadata_from_dict (AnalysisMetadata_to_dict (metadata r)) = Inr (metadata r)"
    by (simp add: AnalysisMetadata_roundtrip valid_result_def)
  with fs show ?thesis
    by (simp add: AnalysisResult_from_dict_def AnalysisResult_to_dict_def py_get_def py_iter_def)
qed

theorem to_dict_from_dict_roundtrip_witness:
  "valid_result
     \<lparr>files = [\<lparr>file_path = ''/srv/app/a.php'', relative_path = ''app/a.php'',
                 dependencies = [\<lparr>dep_type = STATIC_CALL, line = 12,
                                  snippet = ''Branch::find(1)'',
                                  details = [(''class_name'', PStr ''Branch'')]\<rparr>],
                 error = None\<rparr>,
               \<lparr>file_path = ''/srv/app/b.php'', relative_path = ''app/b.php'',
                 dependencies = [], error = Some ''parse error''\<rparr>],
      metadata = \<lparr>timestamp = ''2024-01-01 10:00:00'', analysis_time_seconds = 3 / 2,
                  base_path = ''/srv'', analyzed_folders = [''app''],
                  excluded_folders = [''vendor''], total_files_analyzed = 2\<rparr>\<rparr> \<and>
   AnalysisResult_from_dict (AnalysisResult_to_dict
     \<lparr>files = [\<lparr>file_path = ''/srv/app/a.php'', relative_path = ''app/a.php'',
                 dependencies = [\<lparr>dep_type = STATIC_CALL, line = 12,
                                  snippet = ''Branch::find(1)'',
                                  details = [(''class_name'', PStr ''Branch'')]\<rparr>],
                 error = None\<rparr>,
               \<lparr>file_path = ''/srv/app/b.php'', relative_path = ''app/b.php'',
                 dependencies = [], error = Some ''parse error''\<rparr>],
      metadata = \<lparr>timestamp = ''2024-01-01 10:00:00'', analysis_time_seconds = 3 / 2,
                  base_path = ''/srv'', analyzed_folders = [''app''],
                  excluded_folders = [''vendor''], total_files_analyzed = 2\<rparr>\<rparr>) =
   Inr
     \<lparr>files = [\<lparr>file_path = ''/srv/app/a.php'', relative_path = ''app/a.php'',
                 dependencies = [\<lparr>dep_type = STATIC_CALL, line = 12,
                                  snippet = ''Branch::find(1)'',
                                  details = [(''class_name'', PStr ''Branch'')]\<rparr>],
                 error = None\<rparr>,
               \<lparr>file_path = ''/srv/app/b.php'', relative_path = ''app/b.php'',
                 dependencies = [], error = Some ''parse error''\<rparr>],
      metadata = \<lparr>timestamp = ''2024-01-01 10:00:00'', analysis_time_seconds = 3 / 2,
                  base_path = ''/srv'', analyzed_folders = [''app''],
                  excluded_folders = [''vendor''], total_files_analyzed = 2\<rparr>\<rparr>"
proof -
  let ?r = "\<lparr>files = [\<lparr>file_path = ''/srv/app/a.php'', relative_path = ''app/a.php'',
                 dependencies = [\<lparr>dep_type = STATIC_CALL, line = 12,
                                  snippet = ''Branch::find(1)'',
                                  details = [(''class_name'', PStr ''Branch'')]\<rparr>],
                 error = None\<rparr>,
               \<lparr>file_path = ''/srv/app/b.php'', relative_path = ''app/b.php'',
                 dependencies = [], error = Some ''parse error''\<rparr>],
      metadata = \<lparr>timestamp = ''2024-01-01 10:00:00'', analysis_time_seconds = 3 / 2,
                  base_path = ''/srv'', analyzed_folders = [''app''],
                  excluded_folders = [''vendor''], total_files_analyzed = 2\<rparr>\<rparr>"
  have h: "valid_result ?r"
    by (simp add: valid_result_def valid_file_def FileAnalysis_post_init_def
        Dependency_post_init_def AnalysisMetadata_post_init_def strip_def isspace_def
        whitespace_def)
  show ?thesis by (rule conjI [OF h to_dict_from_dict_roundtrip [OF h]])
qed


lemma has_dependencies_conv: "has_dependencies = (\<lambda>f. dependencies f \<noteq> [])"
  by (rule ext) (simp add: has_dependencies_def total_dependencies_def)

















section \<open>The analysis service\<close>

text \<open>Unfolding rules for running the model on a concrete state.\<close>

lemmas world_defs = read_clock_def log_call_def cs_get_def cs_set_def cached_def
  repository_cache_key_def create_empty_result_def load_from_file_def load_try_def
  repository_except_def load_analysis_result_def get_last_modified_def
  record_metric_def record_time_def check_cache_def cache_the_result_def
  should_reload_data_def reload_def get_analysis_result_def as_result_def service_except_def


lemmas string_defs = strip_def isspace_def whitespace_def lower_def lower_char_def
  upper_letters_def lower_letters_def str_int_def


lemma cached_read_clock [simp]: "cached (snd (read_clock w)) ref k = cached w ref k"
  by (simp add: cached_def read_clock_def split: option.splits)

lemma cached_log_call [simp]: "cached (log_call c w) ref k = cached w ref k"
  by (simp add: cached_def log_call_def split: option.splits)

lemma cached_record_metric [simp]: "cached (record_metric m w) ref k = cached w ref k"
  by (simp add: cached_def record_metric_def split: option.splits MetricsCollector.splits)

lemma cs_get_result: "fst (cs_get a k w) = cached w (Some a) k"
proof (cases "heap w a")
  case NullCacheService
  then show ?thesis by (simp add: cs_get_def cached_def log_call_def)
next
  case (InMemoryCacheService c)
  show ?thesis
  proof (cases "map_of (cache c) k")
    case None
    then have "k \<notin> set (dict_keys (cache c))" by (simp add: map_of_None_keys)
    with None InMemoryCacheService show ?thesis
      by (simp add: cs_get_def cached_def log_call_def cache_exists_def)
  next
    case (Some v)
    then have "k \<in> set (dict_keys (cache c))" by (rule map_of_Some_keys)
    with Some InMemoryCacheService show ?thesis
      by (simp add: cs_get_def cached_def log_call_def cache_exists_def read_clock_def
          cache_get_def)
  qed
qed

lemma cs_get_miss:
  "cached w (Some a) k = None \<Longrightarrow> cs_get a k w = (None, log_call (CacheGet a k) w)"
  by (auto simp: cs_get_def cached_def log_call_def cache_exists_def
      map_of_None_keys Let_def split: CacheService.splits)

lemma check_cache_miss:
  "cached w (service_cache w) k = None \<Longrightarrow> fst (check_cache k w) = None"
  by (cases "service_cache w") (simp_all add: check_cache_def cs_get_miss)





lemma cs_get_held: "analysis_result (snd (cs_get a k w)) = analysis_result w"
  by (auto simp: cs_get_def Let_def read_clock_def log_call_def
      split: CacheService.splits prod.splits)

lemma record_metric_held [simp]: "analysis_result (record_metric m w) = analysis_result w"
  by (simp add: record_metric_def split: option.splits MetricsCollector.splits)

lemma record_time_held [simp]: "analysis_result (record_time operation t w) = analysis_result w"
  by (simp add: record_time_def read_clock_def split: option.splits)






lemma reload_held: "reload w = (Inr held, w') \<Longrightarrow> analysis_result w' = Some held"
  by (auto simp: reload_def read_clock_def split: prod.splits sum.splits)

lemma should_reload_held: "analysis_result (snd (should_reload_data w)) = analysis_result w"
  by (simp add: should_reload_data_def get_last_modified_def log_call_def
      split: option.splits document.splits)


lemma get_analysis_result_held:
  "get_analysis_result w = (Inr held, w') \<Longrightarrow> analysis_result w' = Some held"
  using should_reload_held [of w]
  by (auto simp: get_analysis_result_def split: option.splits prod.splits bool.splits
      dest: reload_held)



lemma service_except_reraise:
  "\<not> is_ValueError c \<Longrightarrow> fst outcome = Inl c \<Longrightarrow>
   fst (service_except operation b outcome) = Inl (AnalysisError c)"
  by (cases outcome) (simp add: service_except_def)










lemma loads_read_clock [simp]: "repository_loads (snd (read_clock w)) = repository_loads w"
  by (simp add: repository_loads_def read_clock_def)


lemma loads_cs_set [simp]: "repository_loads (snd (cs_set a k v w)) = repository_loads w"
  by (auto simp: cs_set_def Let_def repository_loads_def read_clock_def log_call_def
      split: CacheService.splits prod.splits sum.splits)

lemma loads_create_empty [simp]: "repository_loads (snd (create_empty_result w)) = repository_loads w"
  by (simp add: create_empty_result_def repository_loads_def read_clock_def)

lemma loads_cs_set_pair: "cs_set a k v w = (r, w') \<Longrightarrow> repository_loads w' = repository_loads w"
  using loads_cs_set [of a k v w] by simp

lemma loads_create_empty_pair:
  "create_empty_result w = (r, w') \<Longrightarrow> repository_loads w' = repository_loads w"
  using loads_create_empty [of w] by simp

lemma loads_load_from_file [simp]: "repository_loads (snd (load_from_file w)) = repository_loads w"
  by (auto simp: load_from_file_def split: document.splits file_content.splits sum.splits
      option.splits prod.splits dest: loads_cs_set_pair loads_create_empty_pair)
















lemma set_sorted_reverse [simp]: "set (sorted_reverse k xs) = set xs"
  by (simp add: sorted_reverse_def)

lemma length_sorted_reverse [simp]: "length (sorted_reverse k xs) = length xs"
  by (simp add: sorted_reverse_def)




lemma check_cache_no_hit:
  "cached w (service_cache w) k = None \<Longrightarrow> check_cache k w = (Some v, w') \<Longrightarrow> False"
  using check_cache_miss [of w k] by simp

lemma as_result_Inr: "as_result held = Inr r \<Longrightarrow> held = VResult r"
  by (cases held) (simp_all add: as_result_def)











lemma str_in_sublist: "str_in q s = sublist q s"
  by (induction s) (auto simp: sublist_Cons_right)

lemma search_loop_filter:
  "search_loop q acc fs = acc @ filter (file_matches q) fs"
  by (induction fs arbitrary: acc) simp_all

lemma file_matches_sublist:
  "file_matches q f =
     (sublist q (lower (relative_path f)) \<or>
      (\<exists>d \<in> set (dependencies f). sublist q (lower (snippet d))))"
  by (simp add: file_matches_def str_in_sublist list_ex_iff)

lemma search_on:
  assumes "search_dependencies query w = (Inr fs, w')"
  shows "\<exists>r. analysis_result w' = Some (VResult r) \<and> fs = search_files r query"
proof -
  let ?w1 = "snd (read_clock w)"
  from assms obtain s where t: "search_try s query ?w1 = (Inr fs, w')"
    by (auto simp: search_dependencies_def read_clock_def service_except_def
        split: prod.splits sum.splits if_splits)
  then obtain held w2 where g: "get_analysis_result ?w1 = (Inr held, w2)"
    by (auto simp: search_try_def split: if_splits prod.splits sum.splits)
  from t g obtain r where r: "held = VResult r"
    by (auto simp: search_try_def split: if_splits prod.splits sum.splits dest: as_result_Inr)
  from t g r have fin: "fs = search_files r query"
    "w' = record_time ''search_dependencies'' s w2"
    by (auto simp: search_try_def as_result_def split: if_splits prod.splits sum.splits)
  from get_analysis_result_held [OF g] fin r show ?thesis by simp
qed

text \<open>
  Claim C1, as the code has it. A query whose trimmed length is below 2 finds nothing.
  For any other query \<open>search_files\<close> returns, in file order, exactly the files that
  have at least one dependency and for which the lower-cased query occurs in the
  lower-cased relative path or in the lower-cased context of some dependency. A file
  without dependencies is never returned. \<open>search_dependencies\<close> raises \<open>ValueError\<close>
  for a query of trimmed length above 100 and otherwise, when it returns, returns
  \<open>search_files\<close> of the result the service then holds.
\<close>

theorem search_files_matches:
  "search_files r query =
     (if length (strip query) < 2 then []
      else filter (\<lambda>f. dependencies f \<noteq> [] \<and>
                        (sublist (lower query) (lower (relative_path f)) \<or>
                         (\<exists>d \<in> set (dependencies f).
                             sublist (lower query) (lower (snippet d)))))
             (files r)) \<and>
   (100 < length (strip query) \<longrightarrow>
      search_dependencies query w = (Inl ValueError, w\<lparr>ticks := Suc (ticks w)\<rparr>)) \<and>
   (length (strip query) \<le> 100 \<and> search_dependencies query w = (Inr fs, w') \<longrightarrow>
      (\<exists>held. analysis_result w' = Some (VResult held) \<and> fs = search_files held query))"
proof (intro conjI impI)
  show "search_files r query =
     (if length (strip query) < 2 then []
      else filter (\<lambda>f. dependencies f \<noteq> [] \<and>
                        (sublist (lower query) (lower (relative_path f)) \<or>
                         (\<exists>d \<in> set (dependencies f).
                             sublist (lower query) (lower (snippet d)))))
             (files r))"
    by (simp add: search_files_def search_loop_filter files_with_dependencies_def
        has_dependencies_conv file_matches_sublist conj_commute)
next
  assume "100 < length (strip query)"
  then show "search_dependencies query w = (Inl ValueError, w\<lparr>ticks := Suc (ticks w)\<rparr>)"
    by (simp add: search_dependencies_def search_try_def read_clock_def service_except_def
        validate_search_query_def)
next
  assume "length (strip query) \<le> 100 \<and> search_dependencies query w = (Inr fs, w')"
  then show "\<exists>held. analysis_result w' = Some (VResult held) \<and> fs = search_files held query"
    using search_on [of query w fs w'] by blast
qed

theorem search_files_matches_witness:
  "search_files
     \<lparr>files = [example_file ''App/a.php'' INSTANTIATION [1, 2],
               example_file ''App/c.php'' TYPE_HINT []],
      metadata = example_metadata\<rparr> ''A.PHP'' =
     [example_file ''App/a.php'' INSTANTIATION [1, 2]] \<and>
   search_files
     \<lparr>files = [example_file ''App/a.php'' INSTANTIATION [1, 2],
               example_file ''App/c.php'' TYPE_HINT []],
      metadata = example_metadata\<rparr> ''NEW branch'' =
     [example_file ''App/a.php'' INSTANTIATION [1, 2]] \<and>
   search_files
     \<lparr>files = [example_file ''App/a.php'' INSTANTIATION [1, 2],
               example_file ''App/c.php'' TYPE_HINT []],
      metadata = example_metadata\<rparr> '' a '' = [] \<and>
   search_dependencies ''xxxxxxxxxxxxxxxxxxxxxxxxxxxxxxxxxxxxxxxxxxxxxxxxxxxxxxxxxxxxxxxxxxxxxxxxxxxxxxxxxxxxxxxxxxxxxxxxxxxxx''
     (holding
     \<lparr>files = [example_file ''App/a.php'' INSTANTIATION [1, 2],
               example_file ''App/c.php'' TYPE_HINT []],
      metadata = example_metadata\<rparr>) =
     (Inl ValueError, (holding
     \<lparr>files = [example_file ''App/a.php'' INSTANTIATION [1, 2],
               example_file ''App/c.php'' TYPE_HINT []],
      metadata = example_metadata\<rparr>)\<lparr>ticks := Suc 0\<rparr>) \<and>
   (\<exists>held. analysis_result (snd (search_dependencies ''A.PHP'' (holding
     \<lparr>files = [example_file ''App/a.php'' INSTANTIATION [1, 2],
               example_file ''App/c.php'' TYPE_HINT []],
      metadata = example_metadata\<rparr>))) = Some (VResult held) \<and>
      [example_file ''App/a.php'' INSTANTIATION [1, 2]] = search_files held ''A.PHP'')"
proof -
  let ?r = "\<lparr>files = [example_file ''App/a.php'' INSTANTIATION [1, 2],
               example_file ''App/c.php'' TYPE_HINT []],
      metadata = example_metadata\<rparr>"
  let ?a = "example_file ''App/a.php'' INSTANTIATION [1, 2]"
  let ?w = "holding ?r"
  let ?long = "''xxxxxxxxxxxxxxxxxxxxxxxxxxxxxxxxxxxxxxxxxxxxxxxxxxxxxxxxxxxxxxxxxxxxxxxxxxxxxxxxxxxxxxxxxxxxxxxxxxxxx''"
  note ev = example_file_def string_defs str_in_sublist [symmetric] list_ex_iff [symmetric]
  have c1: "search_files ?r ''A.PHP'' = [?a]"
    using search_files_matches [of ?r "''A.PHP''", THEN conjunct1] by (simp add: ev)
  have c2: "search_files ?r ''NEW branch'' = [?a]"
    using search_files_matches [of ?r "''NEW branch''", THEN conjunct1] by (simp add: ev)
  have c3: "search_files ?r '' a '' = []"
    using search_files_matches [of ?r "'' a ''", THEN conjunct1] by (simp add: ev)
  have l: "100 < length (strip ?long)" by (simp add: string_defs)
  have c4: "search_dependencies ?long ?w = (Inl ValueError, ?w\<lparr>ticks := Suc 0\<rparr>)"
    using search_files_matches [of ?r ?long ?w, THEN conjunct2, THEN conjunct1, rule_format, OF l]
    by (simp add: holding_def)
  have f: "fst (search_dependencies ''A.PHP'' ?w) = Inr [?a]"
    by (simp add: holding_def search_dependencies_def search_try_def validate_search_query_def
        world_defs Let_def c1 string_defs)
  have h: "length (strip ''A.PHP'') \<le> 100 \<and>
      search_dependencies ''A.PHP'' ?w = (Inr [?a], snd (search_dependencies ''A.PHP'' ?w))"
    using f by (simp add: prod_eq_iff string_defs)
  note c5 = search_files_matches [of ?r "''A.PHP''" ?w "[?a]"
      "snd (search_dependencies ''A.PHP'' ?w)", THEN conjunct2, THEN conjunct2, rule_format, OF h]
  show ?thesis by (intro conjI c1 c2 c3 c4 c5)
qed

theorem search_files_skips_files_counterexample:
  "2 \<le> length (strip ''C.PHP'') \<and> length (strip ''C.PHP'') \<le> 100 \<and>
   example_file ''App/c.php'' TYPE_HINT [] \<in> set (files
     \<lparr>files = [example_file ''App/a.php'' INSTANTIATION [1, 2],
               example_file ''App/c.php'' TYPE_HINT []],
      metadata = example_metadata\<rparr>) \<and>
   str_in (lower ''C.PHP'') (lower (relative_path (example_file ''App/c.php'' TYPE_HINT []))) \<and>
   search_files
     \<lparr>files = [example_file ''App/a.php'' INSTANTIATION [1, 2],
               example_file ''App/c.php'' TYPE_HINT []],
      metadata = example_metadata\<rparr> ''C.PHP'' = [] \<and>
   fst (search_dependencies ''C.PHP'' (holding
     \<lparr>files = [example_file ''App/a.php'' INSTANTIATION [1, 2],
               example_file ''App/c.php'' TYPE_HINT []],
      metadata = example_metadata\<rparr>)) = Inr []"
  by (simp add: search_files_def files_with_dependencies_def has_dependencies_def
      total_dependencies_def file_matches_def example_file_def string_defs holding_def
      search_dependencies_def search_try_def validate_search_query_def world_defs Let_def)

end
